theory Spec2Isabelle
  imports Main "HOL-Library.Sublist"
begin

section \<open>Python text primitives used by the two tools\<close>

text \<open>
  A Python \<open>str\<close> is modelled as a HOL \<open>string\<close>: a list of characters with code
  points 0..255. Text with code points above 255 is outside the model.

  \<^item> \<open>s.endswith(t)\<close> is \<open>suffix t s\<close>, \<open>t in s\<close> on strings is \<open>sublist t s\<close>
    (both from the library, both with executable equations);
  \<^item> \<open>s[:-1]\<close> is \<open>butlast s\<close> (the empty string stays empty, as in Python).
\<close>

definition endswith :: "string \<Rightarrow> string \<Rightarrow> bool" where
  "endswith s t = suffix t s"

definition str_in :: "string \<Rightarrow> string \<Rightarrow> bool" where
  "str_in t s = sublist t s"

text \<open>
  \<open>s.split(sep)\<close> for a one-character separator: the pieces between the occurrences of
  the separator, never an empty list.
\<close>

fun split :: "char \<Rightarrow> string \<Rightarrow> string list" where
  "split sep [] = [[]]"
| "split sep (c # cs) =
     (if c = sep then [] # split sep cs
      else (case split sep cs of
              [] \<Rightarrow> [[c]]
            | w # ws \<Rightarrow> (c # w) # ws))"

text \<open>
  \<open>str.strip()\<close> removes the characters for which \<open>str.isspace()\<close> holds from both
  ends. Below code point 256 these are tab, line feed, vertical tab, form feed, carriage
  return, the separators 0x1C..0x1F, space, 0x85 and 0xA0.
\<close>

definition isspace :: "char \<Rightarrow> bool" where
  "isspace c = (c \<in> set [CHR 0x09, CHR 0x0A, CHR 0x0B, CHR 0x0C, CHR 0x0D,
                           CHR 0x1C, CHR 0x1D, CHR 0x1E, CHR 0x1F, CHR 0x20,
                           CHR 0x85, CHR 0xA0])"

definition strip :: "string \<Rightarrow> string" where
  "strip s = rev (dropWhile isspace (rev (dropWhile isspace s)))"

text \<open>
  \<open>str.upper()\<close>, character by character. Below code point 256: a..z and the Latin-1
  lower-case letters 0xE0..0xFE (0xF7, the division sign, apart) move down by 32, the
  sharp s 0xDF becomes \<open>SS\<close>. The upper-case forms of 0xB5 and 0xFF lie above code
  point 255; the model leaves these two characters as they are.
\<close>

definition upper_char :: "char \<Rightarrow> string" where
  "upper_char c =
     (let n = (of_char c :: nat) in
      if 97 \<le> n \<and> n \<le> 122 then [char_of (n - 32)]
      else if n = 223 then ''SS''
      else if 224 \<le> n \<and> n \<le> 254 \<and> n \<noteq> 247 then [char_of (n - 32)]
      else [c])"

definition upper :: "string \<Rightarrow> string" where
  "upper s = concat (map upper_char s)"

text \<open>
  \<open>int(s)\<close> on a string, base 10: surrounding white space is dropped, then an optional
  sign, then decimal digits in which single underscores may stand between two digits.
  \<open>None\<close> is the \<open>ValueError\<close>. Negative literals are accepted. Integers are
  unbounded; the interpreter's configurable limit on the number of digits of a literal
  (4300 by default in recent versions, a \<open>ValueError\<close> beyond it) is outside the model.
\<close>

definition isdigit :: "char \<Rightarrow> bool" where
  "isdigit c = (c \<in> set ''0123456789'')"

definition digit_val :: "char \<Rightarrow> nat" where
  "digit_val c = of_char c - 48"

fun scan_digits :: "nat \<Rightarrow> string \<Rightarrow> nat option" where
  "scan_digits acc [] = Some acc"
| "scan_digits acc (c # cs) =
     (if isdigit c then scan_digits (acc * 10 + digit_val c) cs
      else if c = CHR ''_'' then
        (case cs of
           [] \<Rightarrow> None
         | d # ds \<Rightarrow> if isdigit d then scan_digits (acc * 10 + digit_val d) ds else None)
      else None)"

definition digits :: "string \<Rightarrow> nat option" where
  "digits s =
     (case s of
        [] \<Rightarrow> None
      | c # cs \<Rightarrow> if isdigit c then scan_digits (digit_val c) cs else None)"

definition py_int :: "string \<Rightarrow> int option" where
  "py_int s =
     (case strip s of
        [] \<Rightarrow> None
      | c # cs \<Rightarrow>
          if c = CHR ''-'' then map_option (\<lambda>n. - int n) (digits cs)
          else if c = CHR ''+'' then map_option int (digits cs)
          else map_option int (digits (c # cs)))"

text \<open>\<open>str(n)\<close> for an integer, as the f-strings print it.\<close>

function str_nat :: "nat \<Rightarrow> string" where
  "str_nat n =
     (if n < 10 then [''0123456789'' ! n]
      else str_nat (n div 10) @ [''0123456789'' ! (n mod 10)])"
  by pat_completeness auto
termination
  by (relation "measure (\<lambda>n. n)") auto

declare str_nat.simps [simp del]

definition str_int :: "int \<Rightarrow> string" where
  "str_int i = (if i < 0 then CHR ''-'' # str_nat (nat (- i)) else str_nat (nat i))"

text \<open>An optional value in an f-string: \<open>None\<close> prints as the word \<open>None\<close>.\<close>

definition str_opt :: "string option \<Rightarrow> string" where
  "str_opt v = (case v of None \<Rightarrow> ''None'' | Some s \<Rightarrow> s)"

section \<open>The DNS upload tool: \<open>dns_upload.py\<close>\<close>

subsection \<open>Change batches\<close>

text \<open>
  The dictionary \<open>create_change_batch\<close> returns, with the keys of the source as
  field names.
\<close>

record resource_record =
  Value :: string

record resource_record_set =
  Name :: string
  Type :: string
  TTL :: int
  ResourceRecords :: "resource_record list"

record change =
  Action :: string
  ResourceRecordSet :: resource_record_set

record change_batch =
  Changes :: "change list"

text \<open>
  \<open>Route53Uploader.create_change_batch\<close> (the method does not use \<open>self\<close>). The
  f-string of the TXT branch puts the value between two double-quote characters, code
  point 0x22.
\<close>

definition create_change_batch ::
  "string \<Rightarrow> string \<Rightarrow> string \<Rightarrow> string \<Rightarrow> int \<Rightarrow> change_batch" where
  "create_change_batch record_type record_name zone_name value ttl =
     (let fqdn = (if \<not> endswith record_name zone_name
                  then record_name @ ''.'' @ zone_name
                  else record_name);
          fqdn = (if \<not> endswith fqdn ''.'' then fqdn @ ''.'' else fqdn);
          rr = (if record_type = ''TXT''
                then \<lparr>Value = [CHR 0x22] @ value @ [CHR 0x22]\<rparr>
                else \<lparr>Value = value\<rparr>)
      in \<lparr>Changes =
            [\<lparr>Action = ''UPSERT'',
              ResourceRecordSet =
                \<lparr>Name = fqdn, Type = record_type, TTL = ttl,
                 ResourceRecords = [] @ [rr]\<rparr>\<rparr>]\<rparr>)"

subsection \<open>Exceptions, the provider and what the tool does to the world\<close>

text \<open>
  The exception classes the two tools name in an \<open>except\<close> clause or can raise
  themselves, each with the text \<open>str(e)\<close> gives; a \<open>ClientError\<close> also carries
  \<open>e.response["Error"]["Code"]\<close>. \<open>OtherError\<close> stands for any other class.
\<close>

datatype pyexn =
    ClientError string string
  | NoCredentialsError string
  | WaiterError string
  | KeyError string
  | ValueError string
  | AttributeError string
  | OtherError string

fun exn_str :: "pyexn \<Rightarrow> string" where
  "exn_str (ClientError code text) = text"
| "exn_str (NoCredentialsError text) = text"
| "exn_str (WaiterError text) = text"
| "exn_str (KeyError text) = text"
| "exn_str (ValueError text) = text"
| "exn_str (AttributeError text) = text"
| "exn_str (OtherError text) = text"

text \<open>The colour codes of colorama that the messages are wrapped in.\<close>

definition Fore_RED :: string where "Fore_RED = CHR 0x1B # ''[31m''"
definition Fore_GREEN :: string where "Fore_GREEN = CHR 0x1B # ''[32m''"
definition Fore_YELLOW :: string where "Fore_YELLOW = CHR 0x1B # ''[33m''"
definition Fore_CYAN :: string where "Fore_CYAN = CHR 0x1B # ''[36m''"
definition Style_RESET_ALL :: string where "Style_RESET_ALL = CHR 0x1B # ''[0m''"

text \<open>One entry of \<open>response["HostedZones"]\<close>: its keys \<open>Name\<close> and \<open>Id\<close>.\<close>

record hosted_zone =
  zone_Name :: string
  zone_Id :: string

text \<open>
  Everything the upload tool does that is visible from outside, in order: a printed line,
  the printed JSON dump of a change batch (dry run), a call of the provider's
  \<open>list_hosted_zones\<close>, a call of \<open>change_resource_record_sets\<close> with its zone
  identifier and change batch, and the half-second sleep.
\<close>

datatype dns_event =
    Print string
  | PrintJson change_batch
  | ListHostedZones
  | ChangeResourceRecordSets string change_batch
  | SleepHalfSecond

text \<open>
  The provider is a parameter: what each call answers (an exception or a value) may
  depend on everything that happened before. \<open>int_error_text\<close> is the text of the
  \<open>ValueError\<close> that \<open>int()\<close> raises for a string.
\<close>

record dns_env =
  list_hosted_zones :: "dns_event list \<Rightarrow> pyexn + hosted_zone list"
  change_resource_record_sets ::
    "dns_event list \<Rightarrow> string \<Rightarrow> change_batch \<Rightarrow> pyexn + string"
  int_error_text :: "string \<Rightarrow> string"

subsection \<open>The zone resolver\<close>

text \<open>The two candidate names \<open>get_hosted_zone_id\<close> searches for.\<close>

definition zone_name_search :: "string \<Rightarrow> string list" where
  "zone_name_search zone_name =
     (if \<not> endswith zone_name ''.'' then [zone_name @ ''.'', zone_name]
      else [zone_name, butlast zone_name])"

text \<open>
  \<open>Route53Uploader.get_hosted_zone_id\<close>. Each loop returns at the first zone that
  passes its test, which is \<open>find\<close>. The result is the returned value (\<open>Inr None\<close> is
  Python's \<open>None\<close>) or the exception that leaves the method, with the events so far.
\<close>

definition get_hosted_zone_id ::
  "dns_env \<Rightarrow> string \<Rightarrow> dns_event list \<Rightarrow> (pyexn + string option) \<times> dns_event list" where
  "get_hosted_zone_id env zone_name tr =
     (let names = zone_name_search zone_name;
          tr1 = tr @ [ListHostedZones]
      in case list_hosted_zones env tr of
           Inr zones \<Rightarrow>
             (case find (\<lambda>hz. zone_Name hz \<in> set names) zones of
                Some hz \<Rightarrow> (Inr (Some (last (split CHR ''/'' (zone_Id hz)))), tr1)
              | None \<Rightarrow>
                  (case find (\<lambda>hz. \<exists>name \<in> set names. str_in name (zone_Name hz)) zones of
                     Some hz \<Rightarrow> (Inr (Some (last (split CHR ''/'' (zone_Id hz)))), tr1)
                   | None \<Rightarrow> (Inr None, tr1)))
         | Inl e \<Rightarrow>
             (let caught = (Inr None,
                    tr1 @ [Print (Fore_RED @ ''Error getting hosted zone: '' @ exn_str e
                                  @ Style_RESET_ALL)])
              in case e of
                   ClientError code text \<Rightarrow> caught
                 | NoCredentialsError text \<Rightarrow> caught
                 | _ \<Rightarrow> (Inl e, tr1)))"

subsection \<open>Uploading one record\<close>

text \<open>
  \<open>Route53Uploader.upload_record\<close>: builds the batch, submits it, and turns a
  \<open>ClientError\<close> into the result \<open>False\<close>; any other exception leaves the method.
\<close>

definition upload_record ::
  "dns_env \<Rightarrow> string \<Rightarrow> string \<Rightarrow> string \<Rightarrow> string \<Rightarrow> string \<Rightarrow> int \<Rightarrow> dns_event list
     \<Rightarrow> (pyexn + bool) \<times> dns_event list" where
  "upload_record env hosted_zone_id record_type record_name zone_name value ttl tr =
     (let change_batch = create_change_batch record_type record_name zone_name value ttl;
          tr1 = tr @ [ChangeResourceRecordSets hosted_zone_id change_batch]
      in case change_resource_record_sets env tr hosted_zone_id change_batch of
           Inr change_id \<Rightarrow>
             (Inr True,
              tr1 @ [Print (Fore_GREEN @ ''Successfully submitted change. Change ID: ''
                            @ change_id @ Style_RESET_ALL)])
         | Inl e \<Rightarrow>
             (case e of
                ClientError code text \<Rightarrow>
                  (Inr False,
                   tr1 @ [Print (Fore_RED @ ''Error uploading record '' @ record_name @ ''.''
                                 @ zone_name @ '': '' @ exn_str e @ Style_RESET_ALL)])
              | _ \<Rightarrow> (Inl e, tr1)))"

subsection \<open>Reading the CSV file\<close>

text \<open>
  The file as \<open>process_csv\<close> sees it: its path, whether the path exists, and the rows that
  \<open>csv.reader\<close> yields for it, the header line first, each a list of fields.
  Opening and decoding the file are taken to succeed.
\<close>

record csv_file =
  path :: string
  file_exists :: bool
  reader_rows :: "string list list"

text \<open>
  What \<open>csv.DictReader\<close> makes of one row: the dictionary \<open>dict(zip(fieldnames, row))\<close>
  (a later duplicate of a key overwrites), and for a row shorter than the header every
  remaining key set to \<open>None\<close>. A key's value is \<open>Some s\<close> for a string and \<open>None\<close> for
  Python's \<open>None\<close>. The extra fields of a row longer than the header go under the key
  \<open>None\<close>, which \<open>process_csv\<close> never reads, and are left out. Rows without any
  field (blank lines) are skipped by the reader.
\<close>

type_synonym csv_row = "string \<rightharpoonup> string option"

definition dict_row :: "string list \<Rightarrow> string list \<Rightarrow> csv_row" where
  "dict_row fieldnames row =
     (let d = fold (\<lambda>(k, v) d. d(k \<mapsto> Some v)) (zip fieldnames row) Map.empty
      in if length fieldnames > length row
         then fold (\<lambda>k d. d(k \<mapsto> None)) (drop (length row) fieldnames) d
         else d)"

definition dict_reader :: "string list \<Rightarrow> string list list \<Rightarrow> csv_row list" where
  "dict_reader fieldnames rows = map (dict_row fieldnames) (filter (\<lambda>r. r \<noteq> []) rows)"

text \<open>
  \<open>row[key].strip()\<close>: a missing key is a \<open>KeyError\<close>, and \<open>strip\<close> on \<open>None\<close> is
  an \<open>AttributeError\<close>.
\<close>

definition row_strip :: "csv_row \<Rightarrow> string \<Rightarrow> pyexn + string" where
  "row_strip row key =
     (case row key of
        None \<Rightarrow> Inl (KeyError ([CHR 0x27] @ key @ [CHR 0x27]))
      | Some None \<Rightarrow> Inl (AttributeError ([CHR 0x27] @ ''NoneType'' @ [CHR 0x27]
                              @ '' object has no attribute '' @ [CHR 0x27] @ ''strip''
                              @ [CHR 0x27]))
      | Some (Some s) \<Rightarrow> Inr (strip s))"

text \<open>
  One DNS record request, as the six assignments at the top of the loop body of
  \<open>process_csv\<close> build it.
\<close>

record dns_request =
  req_env :: string
  req_zone :: string
  req_type :: string
  req_name :: string
  req_value :: string
  req_ttl :: int

text \<open>
  The six assignments, in the order of the source: the first one that raises decides the
  exception.
\<close>

definition parse_row :: "dns_env \<Rightarrow> csv_row \<Rightarrow> pyexn + dns_request" where
  "parse_row env row =
     (case row_strip row ''env'' of Inl e \<Rightarrow> Inl e | Inr env_tag \<Rightarrow>
     (case row_strip row ''zone'' of Inl e \<Rightarrow> Inl e | Inr zone \<Rightarrow>
     (case row_strip row ''type'' of Inl e \<Rightarrow> Inl e | Inr type_field \<Rightarrow>
     (case row_strip row ''name'' of Inl e \<Rightarrow> Inl e | Inr name \<Rightarrow>
     (case row_strip row ''value'' of Inl e \<Rightarrow> Inl e | Inr v \<Rightarrow>
     (case row_strip row ''ttl'' of Inl e \<Rightarrow> Inl e | Inr ttl_field \<Rightarrow>
     (case py_int ttl_field of
        None \<Rightarrow> Inl (ValueError (int_error_text env ttl_field))
      | Some ttl \<Rightarrow>
          Inr \<lparr>req_env = env_tag, req_zone = zone, req_type = upper type_field,
               req_name = name, req_value = v, req_ttl = ttl\<rparr>)))))))"

subsection \<open>The upload driver\<close>

text \<open>The counters, the zone cache and the events of one run of \<open>process_csv\<close>.\<close>

record run_state =
  successes :: nat
  failures :: nat
  skipped :: nat
  zone_id_cache :: "string \<rightharpoonup> string"
  trace :: "dns_event list"

definition emit :: "dns_event list \<Rightarrow> run_state \<Rightarrow> run_state" where
  "emit es st = st\<lparr>trace := trace st @ es\<rparr>"

definition supported_types :: "string list" where
  "supported_types = [''CNAME'', ''TXT'', ''A'', ''AAAA'', ''MX'', ''NS'', ''PTR'', ''SRV'', ''SOA'']"

text \<open>
  The \<open>except (KeyError, ValueError)\<close> clause of the loop body: these two are printed
  and counted as a failure of the row; every other exception leaves the loop.
\<close>

definition row_except :: "nat \<Rightarrow> pyexn \<Rightarrow> run_state \<Rightarrow> pyexn option \<times> run_state" where
  "row_except row_num e st =
     (let caught = (None,
            (emit [Print (Fore_RED @ ''Error processing row '' @ str_nat row_num @ '': ''
                          @ exn_str e @ Style_RESET_ALL)] st)
              \<lparr>failures := failures st + 1\<rparr>)
      in case e of
           KeyError text \<Rightarrow> caught
         | ValueError text \<Rightarrow> caught
         | _ \<Rightarrow> (Some e, st))"

text \<open>Python's truth value of an optional string: \<open>None\<close> and the empty string are false.\<close>

definition truthy :: "string option \<Rightarrow> bool" where
  "truthy v = (case v of None \<Rightarrow> False | Some s \<Rightarrow> s \<noteq> [])"

text \<open>
  The zone lookup of the loop body: the cache first, else the resolver, whose result is
  cached when it is true.
\<close>

definition lookup_zone ::
  "dns_env \<Rightarrow> string \<Rightarrow> run_state \<Rightarrow> (pyexn + string option) \<times> run_state" where
  "lookup_zone env zone st =
     (case zone_id_cache st zone of
        Some cached \<Rightarrow> (Inr (Some cached), st)
      | None \<Rightarrow>
          (case get_hosted_zone_id env zone (trace st) of
             (Inl e, tr) \<Rightarrow> (Inl e, st\<lparr>trace := tr\<rparr>)
           | (Inr hosted_zone_id, tr) \<Rightarrow>
               (Inr hosted_zone_id,
                if truthy hosted_zone_id
                then st\<lparr>zone_id_cache := (zone_id_cache st)(zone \<mapsto> the hosted_zone_id),
                        trace := tr\<rparr>
                else st\<lparr>trace := tr\<rparr>)))"

text \<open>
  The body of the loop over the rows, for the row numbered \<open>row_num\<close>. The result is
  \<open>None\<close> when the loop goes on to the next row and \<open>Some e\<close> when the exception
  \<open>e\<close> leaves the loop.
\<close>

definition process_row ::
  "dns_env \<Rightarrow> bool \<Rightarrow> nat \<Rightarrow> csv_row \<Rightarrow> run_state \<Rightarrow> pyexn option \<times> run_state" where
  "process_row env dry_run row_num row st =
     (case parse_row env row of
        Inl e \<Rightarrow> row_except row_num e st
      | Inr r \<Rightarrow>
          (let st1 = emit [Print (''\<newline>'' @ Fore_YELLOW @ ''Processing row '' @ str_nat row_num
                             @ '': '' @ req_env r @ '' '' @ req_zone r @ '' '' @ req_type r
                             @ '' '' @ req_name r @ '' '' @ req_value r @ '' ''
                             @ str_int (req_ttl r) @ Style_RESET_ALL)] st
           in if req_type r \<notin> set supported_types then
                (None,
                 (emit [Print (Fore_YELLOW @ ''Skipping unsupported record type: ''
                               @ req_type r @ Style_RESET_ALL)] st1)
                   \<lparr>skipped := skipped st1 + 1\<rparr>)
              else
                (case lookup_zone env (req_zone r) st1 of
                   (Inl e, st2) \<Rightarrow> row_except row_num e st2
                 | (Inr hosted_zone_id, st2) \<Rightarrow>
                     if \<not> truthy hosted_zone_id then
                       (None,
                        (emit [Print (Fore_RED @ ''Error: Hosted zone '' @ req_zone r
                                      @ '' not found.'' @ Style_RESET_ALL)] st2)
                          \<lparr>failures := failures st2 + 1\<rparr>)
                     else
                       (let st3 = emit [Print (''Found hosted zone ID: ''
                                          @ the hosted_zone_id @ '' for '' @ req_zone r)] st2
                        in if dry_run then
                             (let change_batch =
                                    create_change_batch (req_type r) (req_name r) (req_zone r)
                                      (req_value r) (req_ttl r)
                              in (None,
                                  (emit [Print (Fore_CYAN @ ''DRY RUN: Would apply change:''
                                                @ Style_RESET_ALL),
                                         PrintJson change_batch] st3)
                                    \<lparr>successes := successes st3 + 1\<rparr>))
                           else
                             (case upload_record env (the hosted_zone_id) (req_type r)
                                     (req_name r) (req_zone r) (req_value r) (req_ttl r)
                                     (trace st3) of
                                (Inl e, tr) \<Rightarrow> row_except row_num e (st3\<lparr>trace := tr\<rparr>)
                              | (Inr result, tr) \<Rightarrow>
                                  (None,
                                   (if result
                                    then st3\<lparr>successes := successes st3 + 1,
                                             trace := tr @ [SleepHalfSecond]\<rparr>
                                    else st3\<lparr>failures := failures st3 + 1,
                                             trace := tr @ [SleepHalfSecond]\<rparr>)))))))"

text \<open>How a run ends: normally, by \<open>sys.exit\<close>, or by an exception nobody caught.\<close>

datatype ending = Completed | SysExit int | Uncaught pyexn

text \<open>The loop \<open>for row_num, row in enumerate(reader, start=2)\<close>.\<close>

fun rows_loop ::
  "dns_env \<Rightarrow> bool \<Rightarrow> nat \<Rightarrow> csv_row list \<Rightarrow> run_state \<Rightarrow> ending \<times> run_state" where
  "rows_loop env dry_run row_num [] st = (Completed, st)"
| "rows_loop env dry_run row_num (row # rows) st =
     (case process_row env dry_run row_num row st of
        (Some e, st') \<Rightarrow> (Uncaught e, st')
      | (None, st') \<Rightarrow> rows_loop env dry_run (row_num + 1) rows st')"

definition expected_headers :: "string list" where
  "expected_headers = [''env'', ''zone'', ''type'', ''name'', ''value'', ''ttl'']"

definition initial_state :: run_state where
  "initial_state =
     \<lparr>successes = 0, failures = 0, skipped = 0, zone_id_cache = Map.empty, trace = []\<rparr>"

text \<open>
  \<open>reader.fieldnames\<close>: the first row the reader yields, \<open>None\<close> for a file without
  any.
\<close>

definition reader_fieldnames :: "csv_file \<Rightarrow> string list option" where
  "reader_fieldnames f = (case reader_rows f of [] \<Rightarrow> None | header # rows \<Rightarrow> Some header)"

text \<open>
  \<open>process_csv\<close>. The header test is \<open>not reader.fieldnames or
  set(reader.fieldnames) != {...}\<close>, false for \<open>None\<close> and for an empty list of
  names. Creating the client object is taken to succeed.
\<close>

definition process_csv :: "dns_env \<Rightarrow> csv_file \<Rightarrow> bool \<Rightarrow> ending \<times> run_state" where
  "process_csv env f dry_run =
     (if \<not> file_exists f then
        (SysExit 1,
         emit [Print (Fore_RED @ ''Error: File '' @ path f @ '' not found.''
                      @ Style_RESET_ALL)] initial_state)
      else
        (let bad_header = (SysExit 1,
               emit [Print (Fore_RED
                       @ ''Error: CSV file must have these headers: env,zone,type,name,value,ttl''
                       @ Style_RESET_ALL)] initial_state)
         in case reader_fieldnames f of
              None \<Rightarrow> bad_header
            | Some fieldnames \<Rightarrow>
                if fieldnames = [] \<or> set fieldnames \<noteq> set expected_headers then bad_header
                else
                  (case rows_loop env dry_run 2
                          (dict_reader fieldnames (tl (reader_rows f))) initial_state of
                     (Completed, st) \<Rightarrow>
                       (Completed,
                        emit [Print (''\<newline>'' @ Fore_GREEN @ ''Summary: ''
                                @ str_nat (successes st) @ '' successful, ''
                                @ str_nat (failures st) @ '' failed, ''
                                @ str_nat (skipped st) @ '' skipped'' @ Style_RESET_ALL)] st)
                   | (ending, st) \<Rightarrow> (ending, st))))"

section \<open>The instance reboot tool: \<open>reboot_ec2.py\<close>\<close>

subsection \<open>The provider and the events of the tool\<close>

text \<open>
  What the tool reads of a \<open>describe_instances\<close> response: the reservations (absent
  key: empty list), their instances (absent key: empty list), and of an instance its
  \<open>InstanceId\<close> and \<open>instance.get("State", {}).get("Name")\<close>, which is \<open>None\<close>
  when absent. Of a \<open>reboot_instances\<close> response it reads the two entries of
  \<open>ResponseMetadata\<close>, each \<open>None\<close> when absent.
\<close>

record ec2_instance =
  InstanceId :: string
  State_Name :: "string option"

record reservation =
  Instances :: "ec2_instance list"

record reboot_response =
  HTTPStatusCode :: "int option"
  RequestId :: "string option"

text \<open>
  The two ways the tool calls \<open>describe_instances\<close>: with a list of filters (name and
  values of each) and with a list of instance identifiers. An identifier is \<open>None\<close>
  when the command line gave none.
\<close>

datatype describe_request =
    ByFilters "(string \<times> string list) list"
  | ByInstanceIds "string option list"

text \<open>
  Everything the reboot tool does that is visible from outside, in order: a printed line,
  a call of \<open>describe_instances\<close>, a call of \<open>reboot_instances\<close> with its
  \<open>InstanceIds\<close> and its \<open>DryRun\<close> flag, the five-second sleep, and the wait of the
  \<open>instance_status_ok\<close> waiter with its \<open>InstanceIds\<close>, \<open>Delay\<close> and
  \<open>MaxAttempts\<close>.
\<close>

datatype ec2_event =
    Printed string
  | DescribeInstances describe_request
  | RebootInstances "string option list" bool
  | SleepFiveSeconds
  | WaiterWait "string option list" int int

text \<open>
  The provider is a parameter: what each call answers may depend on everything that
  happened before. \<open>session_region_name\<close> is \<open>boto3.Session().region_name\<close>.
\<close>

record ec2_env =
  describe_instances :: "ec2_event list \<Rightarrow> describe_request \<Rightarrow> pyexn + reservation list"
  reboot_instances ::
    "ec2_event list \<Rightarrow> string option list \<Rightarrow> bool \<Rightarrow> pyexn + reboot_response"
  waiter_wait :: "ec2_event list \<Rightarrow> string option list \<Rightarrow> int \<Rightarrow> int \<Rightarrow> pyexn + unit"
  session_region_name :: "string option"

subsection \<open>The rebooter object\<close>

text \<open>
  The two attributes of \<open>EC2Rebooter\<close> that its methods read. \<open>__init__\<close> sets the
  region to the argument, else the session's region, else \<open>us-west-2\<close>, each skipped
  when \<open>None\<close> or empty. Creating the session and the client is taken to succeed.
\<close>

record rebooter =
  region :: string
  verbose :: bool

definition EC2Rebooter :: "ec2_env \<Rightarrow> string option \<Rightarrow> string option \<Rightarrow> bool \<Rightarrow> rebooter" where
  "EC2Rebooter env region_arg profile verbose_arg =
     \<lparr>region = (if truthy region_arg then the region_arg
                else if truthy (session_region_name env) then the (session_region_name env)
                else ''us-west-2''),
      verbose = verbose_arg\<rparr>"

subsection \<open>The instance locator\<close>

text \<open>
  \<open>EC2Rebooter.get_instance_by_name\<close>. The identifiers of all instances of all
  reservations are collected in order. The result is the returned value (\<open>Inr None\<close>
  is Python's \<open>None\<close>) or the exception that leaves the method, with the events so far.
\<close>

definition get_instance_by_name ::
  "ec2_env \<Rightarrow> string \<Rightarrow> ec2_event list \<Rightarrow> (pyexn + string option) \<times> ec2_event list" where
  "get_instance_by_name env name tr =
     (let request = ByFilters
            [(''tag:Name'', [name]),
             (''instance-state-name'', [''pending'', ''running'', ''stopping'', ''stopped''])];
          tr1 = tr @ [DescribeInstances request]
      in case describe_instances env tr request of
           Inr reservations \<Rightarrow>
             (let instances = concat (map (\<lambda>r. map InstanceId (Instances r)) reservations)
              in if instances = [] then
                   (Inr None,
                    tr1 @ [Printed (Fore_RED @ ''Error: No instances found with Name tag ''
                                    @ [CHR 0x27] @ name @ [CHR 0x27] @ ''.''
                                    @ Style_RESET_ALL)])
                 else if length instances > 1 then
                   (Inr None,
                    tr1 @ [Printed (Fore_RED @ ''Error: Multiple instances found with Name tag ''
                                    @ [CHR 0x27] @ name @ [CHR 0x27]
                                    @ ''. Please use instance-id instead.'' @ Style_RESET_ALL)]
                        @ map (\<lambda>instance_id. Printed (''  - '' @ instance_id)) instances)
                 else (Inr (Some (hd instances)), tr1))
         | Inl e \<Rightarrow>
             (case e of
                ClientError code text \<Rightarrow>
                  (Inr None,
                   tr1 @ [Printed (Fore_RED @ ''Error searching for instance: '' @ exn_str e
                                   @ Style_RESET_ALL)])
              | _ \<Rightarrow> (Inl e, tr1)))"

subsection \<open>Rebooting\<close>

text \<open>
  The \<open>except ClientError\<close> clause of \<open>reboot_instance\<close>: the error code
  \<open>DryRunOperation\<close> is reported as a simulated reboot and gives \<open>True\<close>, any other
  code gives \<open>False\<close>; an exception of another class leaves the method.
\<close>

definition reboot_except ::
  "string option \<Rightarrow> pyexn \<Rightarrow> ec2_event list \<Rightarrow> (pyexn + bool) \<times> ec2_event list" where
  "reboot_except instance_id e tr =
     (case e of
        ClientError code text \<Rightarrow>
          if code = ''DryRunOperation'' then
            (Inr True,
             tr @ [Printed (Fore_CYAN @ ''DRY RUN: Would reboot instance ''
                            @ str_opt instance_id @ Style_RESET_ALL)])
          else
            (Inr False,
             tr @ [Printed (Fore_RED @ ''Error rebooting instance '' @ str_opt instance_id
                            @ '': '' @ exn_str e @ Style_RESET_ALL),
                   Printed (Fore_RED @ ''Error code: '' @ code @ Style_RESET_ALL)])
      | _ \<Rightarrow> (Inl e, tr))"

text \<open>
  The lines after a reboot that the provider accepted with status 200: the request
  identifier and the audit-log guidance when verbose, then the sleep and the single
  post-reboot query, whose every exception is caught and printed.
\<close>

definition verbose_lines :: "rebooter \<Rightarrow> string \<Rightarrow> ec2_event list" where
  "verbose_lines self request_id =
     [Printed (Fore_CYAN @ ''API Request ID: '' @ request_id @ Style_RESET_ALL),
      Printed (Fore_CYAN @ ''To verify this API call in CloudTrail:'' @ Style_RESET_ALL),
      Printed (Fore_CYAN @ ''  1. Open AWS CloudTrail console: https://'' @ region self
               @ ''.console.aws.amazon.com/cloudtrail/home?region='' @ region self @ ''#''
               @ Style_RESET_ALL),
      Printed (Fore_CYAN @ ''  2. Select '' @ [CHR 0x27] @ ''Event history'' @ [CHR 0x27]
               @ Style_RESET_ALL),
      Printed (Fore_CYAN @ ''  3. Filter by '' @ [CHR 0x27] @ ''Event name'' @ [CHR 0x27]
               @ '' = '' @ [CHR 0x27] @ ''RebootInstances'' @ [CHR 0x27] @ Style_RESET_ALL),
      Printed (Fore_CYAN @ ''  4. Look for Request ID: '' @ request_id @ Style_RESET_ALL)]"

definition post_check ::
  "ec2_env \<Rightarrow> string option \<Rightarrow> string option \<Rightarrow> ec2_event list \<Rightarrow> ec2_event list" where
  "post_check env instance_id instance_state tr =
     (let request = ByInstanceIds [instance_id];
          tr1 = tr @ [DescribeInstances request]
      in case describe_instances env tr request of
           Inl e \<Rightarrow>
             tr1 @ [Printed (Fore_YELLOW @ ''Unable to verify post-reboot state: ''
                             @ exn_str e @ Style_RESET_ALL)]
         | Inr [] \<Rightarrow> tr1
         | Inr (r # rs) \<Rightarrow>
             (case Instances r of
                [] \<Rightarrow> tr1
              | instance # others \<Rightarrow>
                  (let post_state = State_Name instance
                   in tr1 @ [Printed (Fore_CYAN @ ''Post-reboot request state: ''
                                      @ str_opt post_state @ Style_RESET_ALL)]
                      @ (if post_state = Some ''running'' \<and> instance_state = Some ''running''
                         then [Printed (Fore_YELLOW
                                 @ ''Note: EC2 API shows '' @ [CHR 0x27] @ ''running''
                                 @ [CHR 0x27] @ '' status even during reboot.''
                                 @ Style_RESET_ALL),
                               Printed (Fore_YELLOW
                                 @ ''The reboot is likely still in progress at the instance level.''
                                 @ Style_RESET_ALL)]
                         else []))))"

text \<open>
  The part of \<open>reboot_instance\<close> after a \<open>reboot_instances\<close> call that returned
  without an exception: the simulated success of a dry run, else the status code read
  from the response, with the post-reboot query after a status 200. \<open>tr\<close> holds the
  events up to and including the reboot call.
\<close>

definition reboot_answered ::
  "rebooter \<Rightarrow> ec2_env \<Rightarrow> string option \<Rightarrow> bool \<Rightarrow> string option \<Rightarrow> reboot_response
     \<Rightarrow> ec2_event list \<Rightarrow> (pyexn + bool) \<times> ec2_event list" where
  "reboot_answered self env instance_id dry_run instance_state response tr =
     (let status_code = HTTPStatusCode response;
          request_id = (case RequestId response of None \<Rightarrow> ''Unknown'' | Some i \<Rightarrow> i)
      in if dry_run then
           (Inr True,
            tr @ [Printed (Fore_CYAN @ ''DRY RUN: Would reboot instance ''
                           @ str_opt instance_id @ Style_RESET_ALL)])
         else if status_code = Some 200 then
           (Inr True,
            post_check env instance_id instance_state
              (tr @ [Printed (Fore_GREEN @ ''Successfully initiated reboot for instance ''
                              @ str_opt instance_id @ Style_RESET_ALL)]
                  @ (if verbose self then verbose_lines self request_id else [])
                  @ [Printed (Fore_YELLOW @ ''Verifying reboot initiated...''
                              @ Style_RESET_ALL),
                     SleepFiveSeconds]))
         else
           (Inr False,
            tr @ [Printed (Fore_RED @ ''Unexpected API response code: ''
                           @ (case status_code of None \<Rightarrow> ''None'' | Some c \<Rightarrow> str_int c)
                           @ Style_RESET_ALL)]))"

text \<open>
  The line with the state the pre-check found, and the warning for a state that is not
  in the list running, stopping, stopped (an absent state is not in it); the warning does
  not stop the reboot.
\<close>

definition state_lines :: "string option \<Rightarrow> ec2_event list" where
  "state_lines instance_state =
     [Printed (Fore_CYAN @ ''Instance current state: '' @ str_opt instance_state
               @ Style_RESET_ALL)]
     @ (if instance_state \<notin> set [Some ''running'', Some ''stopping'', Some ''stopped'']
        then [Printed (Fore_RED @ ''Warning: Instance is in '' @ [CHR 0x27]
                       @ str_opt instance_state @ [CHR 0x27]
                       @ '' state. Reboot may not work as expected.'' @ Style_RESET_ALL)]
        else [])"

text \<open>
  \<open>EC2Rebooter.reboot_instance\<close>: the pre-check query, the state lines, and the
  reboot call with the \<open>DryRun\<close> flag of the caller.
\<close>

definition reboot_instance ::
  "rebooter \<Rightarrow> ec2_env \<Rightarrow> string option \<Rightarrow> bool \<Rightarrow> ec2_event list
     \<Rightarrow> (pyexn + bool) \<times> ec2_event list" where
  "reboot_instance self env instance_id dry_run tr =
     (let tr0 = tr @ [Printed (Fore_YELLOW @ ''Rebooting instance '' @ str_opt instance_id
                               @ '' in region '' @ region self @ ''...'' @ Style_RESET_ALL)];
          request = ByInstanceIds [instance_id];
          tr1 = tr0 @ [DescribeInstances request];
          not_found = (Inr False,
             tr1 @ [Printed (Fore_RED @ ''Error: Instance '' @ str_opt instance_id
                             @ '' not found'' @ Style_RESET_ALL)])
      in case describe_instances env tr0 request of
           Inl e \<Rightarrow> reboot_except instance_id e tr1
         | Inr [] \<Rightarrow> not_found
         | Inr (r # rs) \<Rightarrow>
             (case Instances r of
                [] \<Rightarrow> not_found
              | instance # others \<Rightarrow>
                  (let instance_state = State_Name instance;
                       tr3 = tr1 @ state_lines instance_state;
                       tr4 = tr3 @ [RebootInstances [instance_id] dry_run]
                   in case reboot_instances env tr3 [instance_id] dry_run of
                        Inl e \<Rightarrow> reboot_except instance_id e tr4
                      | Inr response \<Rightarrow>
                          reboot_answered self env instance_id dry_run instance_state
                            response tr4)))"

subsection \<open>Waiting for the status checks\<close>

text \<open>
  \<open>EC2Rebooter.wait_for_instance_ok\<close>: one wait of the waiter with a delay of 15
  seconds and \<open>timeout // 15\<close> attempts; a \<open>WaiterError\<close> gives \<open>False\<close>.
\<close>

definition wait_for_instance_ok ::
  "rebooter \<Rightarrow> ec2_env \<Rightarrow> string option \<Rightarrow> int \<Rightarrow> ec2_event list
     \<Rightarrow> (pyexn + bool) \<times> ec2_event list" where
  "wait_for_instance_ok self env instance_id timeout tr =
     (let attempts = timeout div 15;
          delay = 15;
          tr0 = tr @ [Printed (Fore_YELLOW @ ''Waiting for instance '' @ str_opt instance_id
                               @ '' to pass status checks...'' @ Style_RESET_ALL),
                      Printed (Fore_YELLOW @ ''Will check every '' @ str_int delay
                               @ '' seconds for up to '' @ str_int timeout @ '' seconds.''
                               @ Style_RESET_ALL)];
          tr1 = tr0 @ [WaiterWait [instance_id] delay attempts]
      in case waiter_wait env tr0 [instance_id] delay attempts of
           Inr u \<Rightarrow>
             (Inr True,
              tr1 @ [Printed (Fore_GREEN @ ''Instance '' @ str_opt instance_id
                              @ '' is now OK!'' @ Style_RESET_ALL)])
         | Inl e \<Rightarrow>
             (case e of
                WaiterError text \<Rightarrow>
                  (Inr False,
                   tr1 @ [Printed (Fore_RED @ ''Error waiting for instance ''
                                   @ str_opt instance_id @ '': '' @ exn_str e
                                   @ Style_RESET_ALL)])
              | _ \<Rightarrow> (Inl e, tr1)))"

subsection \<open>The reboot driver\<close>

text \<open>
  The parsed command line. The parser requires exactly one of \<open>--instance-id\<close> and
  \<open>--name\<close>; the other is \<open>None\<close>.
\<close>

record reboot_args =
  arg_instance_id :: "string option"
  arg_name :: "string option"
  arg_region :: string
  arg_profile :: "string option"
  arg_wait :: bool
  arg_timeout :: int
  arg_dry_run :: bool
  arg_verbose :: bool

text \<open>The three lines \<open>main\<close> prints first.\<close>

definition banner :: "ec2_event list" where
  "banner = [Printed (replicate 40 CHR ''=''),
             Printed ''EC2 Instance Reboot Utility'',
             Printed (replicate 40 CHR ''='')]"

text \<open>The closing lines of \<open>main\<close>, which then returns.\<close>

definition closing_lines :: "reboot_args \<Rightarrow> ec2_event list \<Rightarrow> ending \<times> ec2_event list" where
  "closing_lines args tr =
     (Completed,
      tr @ [Printed (Fore_GREEN @ ''Reboot operation completed successfully.''
                     @ Style_RESET_ALL)]
         @ (if \<not> arg_dry_run args \<and> \<not> arg_verbose args
            then [Printed (Fore_YELLOW
                    @ ''For detailed API verification, run with --verbose flag.''
                    @ Style_RESET_ALL)]
            else []))"

text \<open>
  \<open>main\<close> from the reboot call on, with the instance identifier determined: the
  reboot, the wait when it is asked for and the run is not a dry run, and the closing
  lines. A result \<open>False\<close> of either method is \<open>sys.exit(1)\<close>.
\<close>

definition reboot_and_wait ::
  "ec2_env \<Rightarrow> rebooter \<Rightarrow> reboot_args \<Rightarrow> string option \<Rightarrow> ec2_event list
     \<Rightarrow> ending \<times> ec2_event list" where
  "reboot_and_wait env rebooter args instance_id tr =
     (case reboot_instance rebooter env instance_id (arg_dry_run args) tr of
        (Inl e, tr1) \<Rightarrow> (Uncaught e, tr1)
      | (Inr result, tr1) \<Rightarrow>
          if \<not> result then (SysExit 1, tr1)
          else if arg_wait args \<and> \<not> arg_dry_run args then
            (case wait_for_instance_ok rebooter env instance_id (arg_timeout args) tr1 of
               (Inl e, tr2) \<Rightarrow> (Uncaught e, tr2)
             | (Inr wait_result, tr2) \<Rightarrow>
                 if \<not> wait_result then (SysExit 1, tr2)
                 else closing_lines args tr2)
          else closing_lines args tr1)"

text \<open>
  \<open>main\<close> of the reboot tool, after the command line is parsed: how the run ends, and
  its events. With a name given (and not empty) the locator determines the instance
  identifier, and a result that is \<open>None\<close> or empty is \<open>sys.exit(1)\<close>.
\<close>

definition main :: "ec2_env \<Rightarrow> reboot_args \<Rightarrow> ending \<times> ec2_event list" where
  "main env args =
     (let rebooter = EC2Rebooter env (Some (arg_region args)) (arg_profile args)
                       (arg_verbose args)
      in if truthy (arg_name args) then
           (case get_instance_by_name env (the (arg_name args)) banner of
              (Inl e, tr) \<Rightarrow> (Uncaught e, tr)
            | (Inr instance_id, tr) \<Rightarrow>
                if \<not> truthy instance_id then (SysExit 1, tr)
                else reboot_and_wait env rebooter args instance_id tr)
         else reboot_and_wait env rebooter args (arg_instance_id args) banner)"

section \<open>Observations and example inputs for the statements about the DNS tool\<close>

text \<open>What a change batch holds: the values, names, types and TTLs of its record sets.\<close>

definition batch_values :: "change_batch \<Rightarrow> string list" where
  "batch_values b =
     concat (map (\<lambda>c. map Value (ResourceRecords (ResourceRecordSet c))) (Changes b))"

definition batch_names :: "change_batch \<Rightarrow> string list" where
  "batch_names b = map (\<lambda>c. Name (ResourceRecordSet c)) (Changes b)"

definition batch_types :: "change_batch \<Rightarrow> string list" where
  "batch_types b = map (\<lambda>c. Type (ResourceRecordSet c)) (Changes b)"

definition batch_ttls :: "change_batch \<Rightarrow> int list" where
  "batch_ttls b = map (\<lambda>c. TTL (ResourceRecordSet c)) (Changes b)"

text \<open>
  The identifier the resolver returns for a zone, and the two tests of its two scans
  written out on the zone name itself: the listed name is the queried name or its other
  form (with the trailing dot added or removed), and the listed name contains one of the
  two as a substring.
\<close>

definition zone_id_tail :: "hosted_zone \<Rightarrow> string" where
  "zone_id_tail hz = last (split CHR ''/'' (zone_Id hz))"

definition other_form :: "string \<Rightarrow> string" where
  "other_form zone_name =
     (if suffix ''.'' zone_name then butlast zone_name else zone_name @ ''.'')"

definition exact_match :: "string \<Rightarrow> hosted_zone \<Rightarrow> bool" where
  "exact_match zone_name hz =
     (zone_Name hz = zone_name \<or> zone_Name hz = other_form zone_name)"

definition contains_candidate :: "string \<Rightarrow> hosted_zone \<Rightarrow> bool" where
  "contains_candidate zone_name hz =
     (sublist zone_name (zone_Name hz) \<or> sublist (other_form zone_name) (zone_Name hz))"

text \<open>\<open>x\<close> is the first element of \<open>xs\<close> that satisfies \<open>P\<close>.\<close>

definition first_with :: "('a \<Rightarrow> bool) \<Rightarrow> 'a list \<Rightarrow> 'a \<Rightarrow> bool" where
  "first_with P xs x = (\<exists>pre post. xs = pre @ x # post \<and> P x \<and> (\<forall>y \<in> set pre. \<not> P y))"

text \<open>
  The change batches a run built, in order: the ones it printed in a dry run and the ones
  it submitted. The calls of the provider among the events.
\<close>

fun event_batch :: "dns_event \<Rightarrow> change_batch list" where
  "event_batch (PrintJson b) = [b]"
| "event_batch (ChangeResourceRecordSets zone_id b) = [b]"
| "event_batch e = []"

definition built_batches :: "dns_event list \<Rightarrow> change_batch list" where
  "built_batches tr = concat (map event_batch tr)"

fun is_provider_call :: "dns_event \<Rightarrow> bool" where
  "is_provider_call ListHostedZones = True"
| "is_provider_call (ChangeResourceRecordSets zone_id b) = True"
| "is_provider_call e = False"

text \<open>
  A provider with the single zone \<open>example.com.\<close> that accepts every change, a file
  with a given header line, and a file with the expected header line.
\<close>

definition example_provider :: dns_env where
  "example_provider =
     \<lparr>list_hosted_zones =
        (\<lambda>tr. Inr [\<lparr>zone_Name = ''example.com.'', zone_Id = ''/hostedzone/Z1''\<rparr>]),
      change_resource_record_sets = (\<lambda>tr zone_id b. Inr ''/change/C1''),
      int_error_text = (\<lambda>s. ''invalid literal for int() with base 10: '' @ s)\<rparr>"

definition file_with_header :: "string list \<Rightarrow> string list list \<Rightarrow> csv_file" where
  "file_with_header header rows =
     \<lparr>path = ''records.csv'', file_exists = True, reader_rows = header # rows\<rparr>"

definition example_file :: "string list list \<Rightarrow> csv_file" where
  "example_file rows =
     file_with_header [''env'', ''zone'', ''type'', ''name'', ''value'', ''ttl''] rows"

text \<open>
  Data rows as the reader hands them to the loop when the header is the expected one: a
  record with the TTL \<open>-5\<close>, a record whose type is spelled in lower case, and a row
  that is one field short.
\<close>

definition negative_ttl_fields :: "string list" where
  "negative_ttl_fields = [''prod'', ''example.com'', ''A'', ''host'', ''192.0.2.1'', ''-5'']"

definition lower_case_fields :: "string list" where
  "lower_case_fields =
     [''prod'', ''example.com'', ''cname'', ''www'', ''target.example.com'', ''300'']"

definition short_fields :: "string list" where
  "short_fields = [''prod'', ''example.com'', ''CNAME'', ''www'', ''target.example.com'']"

definition good_fields :: "string list" where
  "good_fields =
     [''prod'', ''example.com'', ''CNAME'', ''www'', ''target.example.com'', ''300'']"

section \<open>Observations and example inputs for the statements about the reboot tool\<close>

text \<open>
  The identifiers a \<open>describe_instances\<close> response lists, in order. The events that
  are calls of the reboot operation; the events that go beyond a dry run (a reboot call
  without the \<open>DryRun\<close> flag, the sleep before the post-reboot query, the wait); the
  queries by instance identifier; and the line that reports the simulated reboot.
\<close>

definition instance_ids :: "reservation list \<Rightarrow> string list" where
  "instance_ids reservations = concat (map (\<lambda>r. map InstanceId (Instances r)) reservations)"

fun is_reboot_call :: "ec2_event \<Rightarrow> bool" where
  "is_reboot_call (RebootInstances ids dry_run) = True"
| "is_reboot_call e = False"

fun beyond_dry_run :: "ec2_event \<Rightarrow> bool" where
  "beyond_dry_run (RebootInstances ids dry_run) = (\<not> dry_run)"
| "beyond_dry_run SleepFiveSeconds = True"
| "beyond_dry_run (WaiterWait ids delay attempts) = True"
| "beyond_dry_run e = False"

fun is_describe_by_ids :: "ec2_event \<Rightarrow> bool" where
  "is_describe_by_ids (DescribeInstances (ByInstanceIds ids)) = True"
| "is_describe_by_ids e = False"

fun is_printed :: "ec2_event \<Rightarrow> bool" where
  "is_printed (Printed text) = True"
| "is_printed e = False"

definition would_reboot_line :: "string option \<Rightarrow> ec2_event" where
  "would_reboot_line instance_id =
     Printed (Fore_CYAN @ ''DRY RUN: Would reboot instance '' @ str_opt instance_id
              @ Style_RESET_ALL)"

text \<open>
  A provider that answers every query with the same reservations and every reboot call
  with the same answer, and two command lines: one by instance identifier, one by name.
\<close>

definition fixed_ec2 :: "reservation list \<Rightarrow> pyexn + reboot_response \<Rightarrow> ec2_env" where
  "fixed_ec2 reservations reboot_answer =
     \<lparr>describe_instances = (\<lambda>tr request. Inr reservations),
      reboot_instances = (\<lambda>tr ids dry_run. reboot_answer),
      waiter_wait = (\<lambda>tr ids delay attempts. Inr ()),
      session_region_name = None\<rparr>"

definition args_by_id :: "string \<Rightarrow> bool \<Rightarrow> reboot_args" where
  "args_by_id instance_id dry_run =
     \<lparr>arg_instance_id = Some instance_id, arg_name = None, arg_region = ''us-west-2'',
      arg_profile = None, arg_wait = True, arg_timeout = 600, arg_dry_run = dry_run,
      arg_verbose = False\<rparr>"

definition args_by_name :: "string \<Rightarrow> bool \<Rightarrow> reboot_args" where
  "args_by_name name dry_run =
     \<lparr>arg_instance_id = None, arg_name = Some name, arg_region = ''us-west-2'',
      arg_profile = None, arg_wait = True, arg_timeout = 600, arg_dry_run = dry_run,
      arg_verbose = False\<rparr>"

definition running_instance :: "string \<Rightarrow> ec2_instance" where
  "running_instance instance_id =
     \<lparr>InstanceId = instance_id, State_Name = Some ''running''\<rparr>"

definition dry_run_answer :: "pyexn + reboot_response" where
  "dry_run_answer =
     Inl (ClientError ''DryRunOperation''
            ''Request would have succeeded, but DryRun flag is set.'')"

section \<open>The change-batch builder\<close>

text \<open>
  C2. For every input of \<open>create_change_batch\<close>: when the record type is TXT, the batch
  holds a single resource-record value, the input value between one pair of double-quote
  characters; for every other record type it holds the input value unchanged.
\<close>

theorem create_change_batch_value:
  "(record_type = ''TXT'' \<longrightarrow>
      batch_values (create_change_batch record_type record_name zone_name v ttl)
        = [[CHR 0x22] @ v @ [CHR 0x22]]) \<and>
   (record_type \<noteq> ''TXT'' \<longrightarrow>
      batch_values (create_change_batch record_type record_name zone_name v ttl) = [v])"
  by (simp add: create_change_batch_def batch_values_def Let_def)

theorem create_change_batch_value_witness:
  "batch_values (create_change_batch ''TXT'' ''_verification'' ''example.com'' ''code'' 300)
     = [[CHR 0x22] @ ''code'' @ [CHR 0x22]] \<and>
   batch_values (create_change_batch ''CNAME'' ''www'' ''example.com'' ''target.example.com'' 300)
     = [''target.example.com'']"
  using create_change_batch_value
      [of "''TXT''" "''_verification''" "''example.com''" "''code''" 300]
    create_change_batch_value
      [of "''CNAME''" "''www''" "''example.com''" "''target.example.com''" 300]
  by simp

text \<open>
  C3. For every record name and zone name, the batch has one \<open>Name\<close>. It is built from
  the record name joined to the zone name with a dot when the record name does not end
  with the zone name, and from the record name alone when it does (the zone is not
  appended a second time); a dot is appended to that exactly when it does not already
  end with one, so the \<open>Name\<close> always ends with a dot.
\<close>

theorem create_change_batch_name:
  "\<exists>fqdn n.
     batch_names (create_change_batch record_type record_name zone_name v ttl) = [n] \<and>
     (\<not> suffix zone_name record_name \<longrightarrow> fqdn = record_name @ ''.'' @ zone_name) \<and>
     (suffix zone_name record_name \<longrightarrow> fqdn = record_name) \<and>
     (\<not> suffix ''.'' fqdn \<longrightarrow> n = fqdn @ ''.'') \<and>
     (suffix ''.'' fqdn \<longrightarrow> n = fqdn) \<and>
     suffix ''.'' n"
  by (simp add: create_change_batch_def batch_names_def Let_def endswith_def)

theorem create_change_batch_name_witness:
  "batch_names (create_change_batch ''CNAME'' ''www'' ''example.com'' ''t'' 300)
     = [''www.example.com.''] \<and>
   batch_names (create_change_batch ''CNAME'' ''www.example.com'' ''example.com'' ''t'' 300)
     = [''www.example.com.''] \<and>
   batch_names (create_change_batch ''CNAME'' ''www.example.com.'' ''example.com.'' ''t'' 300)
     = [''www.example.com.'']"
  using create_change_batch_name
      [of "''CNAME''" "''www''" "''example.com''" "''t''" 300]
    create_change_batch_name
      [of "''CNAME''" "''www.example.com''" "''example.com''" "''t''" 300]
    create_change_batch_name
      [of "''CNAME''" "''www.example.com.''" "''example.com.''" "''t''" 300]
  by (auto simp add: suffix_to_prefix)

text \<open>
  C4. For every input, the batch of \<open>create_change_batch\<close> has exactly one change, its
  action is UPSERT, and its record set has exactly one resource record. The function
  takes nothing but its five arguments, and equal arguments give equal batches.
\<close>

theorem create_change_batch_shape:
  "length (Changes (create_change_batch record_type record_name zone_name v ttl)) = 1 \<and>
   map Action (Changes (create_change_batch record_type record_name zone_name v ttl))
     = [''UPSERT''] \<and>
   map (\<lambda>c. length (ResourceRecords (ResourceRecordSet c)))
       (Changes (create_change_batch record_type record_name zone_name v ttl)) = [1] \<and>
   ((record_type, record_name, zone_name, v, ttl)
      = (record_type', record_name', zone_name', v', ttl') \<longrightarrow>
    create_change_batch record_type record_name zone_name v ttl
      = create_change_batch record_type' record_name' zone_name' v' ttl')"
  by (simp add: create_change_batch_def Let_def)

theorem create_change_batch_shape_witness:
  "length (Changes (create_change_batch ''A'' ''host'' ''example.com'' ''192.0.2.1'' 60)) = 1 \<and>
   map Action (Changes (create_change_batch ''A'' ''host'' ''example.com'' ''192.0.2.1'' 60))
     = [''UPSERT''] \<and>
   map (\<lambda>c. length (ResourceRecords (ResourceRecordSet c)))
       (Changes (create_change_batch ''A'' ''host'' ''example.com'' ''192.0.2.1'' 60)) = [1] \<and>
   create_change_batch ''A'' ''host'' ''example.com'' ''192.0.2.1'' 60
     = create_change_batch ''A'' ''host'' ''example.com'' ''192.0.2.1'' 60"
  using create_change_batch_shape
      [of "''A''" "''host''" "''example.com''" "''192.0.2.1''" 60
          "''A''" "''host''" "''example.com''" "''192.0.2.1''" 60]
  by simp

section \<open>The zone resolver\<close>

lemma find_first_with: "find P xs = Some x \<longleftrightarrow> first_with P xs x"
  unfolding first_with_def
proof (induction xs)
  case Nil
  then show ?case by simp
next
  case (Cons a xs)
  show ?case
  proof (cases "P a")
    case True
    have "(\<exists>pre post. a # xs = pre @ x # post \<and> P x \<and> (\<forall>y\<in>set pre. \<not> P y)) \<longleftrightarrow> a = x"
    proof
      assume "\<exists>pre post. a # xs = pre @ x # post \<and> P x \<and> (\<forall>y\<in>set pre. \<not> P y)"
      then obtain pre post where h: "a # xs = pre @ x # post" "\<forall>y\<in>set pre. \<not> P y"
        by blast
      show "a = x"
      proof (cases pre)
        case Nil
        with h show ?thesis by simp
      next
        case (Cons p ps)
        with h True show ?thesis by auto
      qed
    next
      assume "a = x"
      with True have "a # xs = [] @ x # xs \<and> P x \<and> (\<forall>y\<in>set []. \<not> P y)" by simp
      then show "\<exists>pre post. a # xs = pre @ x # post \<and> P x \<and> (\<forall>y\<in>set pre. \<not> P y)"
        by blast
    qed
    with True show ?thesis by simp
  next
    case False
    have "(\<exists>pre post. a # xs = pre @ x # post \<and> P x \<and> (\<forall>y\<in>set pre. \<not> P y))
          \<longleftrightarrow> (\<exists>pre post. xs = pre @ x # post \<and> P x \<and> (\<forall>y\<in>set pre. \<not> P y))"
    proof
      assume "\<exists>pre post. a # xs = pre @ x # post \<and> P x \<and> (\<forall>y\<in>set pre. \<not> P y)"
      then obtain pre post
        where h: "a # xs = pre @ x # post" "P x" "\<forall>y\<in>set pre. \<not> P y"
        by blast
      show "\<exists>pre post. xs = pre @ x # post \<and> P x \<and> (\<forall>y\<in>set pre. \<not> P y)"
      proof (cases pre)
        case Nil
        with h False show ?thesis by simp
      next
        case (Cons p ps)
        with h have "xs = ps @ x # post \<and> P x \<and> (\<forall>y\<in>set ps. \<not> P y)" by simp
        then show ?thesis by blast
      qed
    next
      assume "\<exists>pre post. xs = pre @ x # post \<and> P x \<and> (\<forall>y\<in>set pre. \<not> P y)"
      then obtain pre post
        where h: "xs = pre @ x # post" "P x" "\<forall>y\<in>set pre. \<not> P y"
        by blast
      with False
      have "a # xs = (a # pre) @ x # post \<and> P x \<and> (\<forall>y\<in>set (a # pre). \<not> P y)"
        by simp
      then show "\<exists>pre post. a # xs = pre @ x # post \<and> P x \<and> (\<forall>y\<in>set pre. \<not> P y)"
        by blast
    qed
    with False Cons.IH show ?thesis by simp
  qed
qed

lemma find_Some_member: "find P xs = Some x \<Longrightarrow> x \<in> set xs \<and> P x"
  by (induction xs) (auto split: if_splits)

lemma zone_name_search_set:
  "set (zone_name_search zone_name) = {zone_name, other_form zone_name}"
  by (auto simp add: zone_name_search_def endswith_def other_form_def)

lemma exact_match_iff:
  "zone_Name hz \<in> set (zone_name_search zone_name) \<longleftrightarrow> exact_match zone_name hz"
  by (simp add: zone_name_search_set exact_match_def)

lemma contains_candidate_iff:
  "(\<exists>name \<in> set (zone_name_search zone_name). str_in name (zone_Name hz))
     \<longleftrightarrow> contains_candidate zone_name hz"
  by (simp add: zone_name_search_set contains_candidate_def str_in_def)

lemma get_hosted_zone_id_listed:
  assumes "list_hosted_zones env tr = Inr zones"
  shows "fst (get_hosted_zone_id env zone_name tr) =
     Inr (case find (exact_match zone_name) zones of
            Some hz \<Rightarrow> Some (zone_id_tail hz)
          | None \<Rightarrow> (case find (contains_candidate zone_name) zones of
                       Some hz \<Rightarrow> Some (zone_id_tail hz)
                     | None \<Rightarrow> None))"
  using assms
  by (simp add: get_hosted_zone_id_def Let_def exact_match_iff contains_candidate_iff
      zone_id_tail_def split: option.splits)

text \<open>
  C1, as the code has it. For every zone name, with or without a trailing dot, the
  resolver searches for two names, the queried one and its other form (the trailing dot
  added or removed). When the provider lists its zones: if a listed zone's name is one of
  the two names, the resolver returns the identifier of the first such zone; if none is
  and some listed zone's name contains one of the two names as a substring, it returns
  the identifier of the first such zone; it returns \<open>None\<close> exactly when no listed
  zone's name equals or contains either name. A listed name that is only a substring of
  a searched name is no match.
\<close>

theorem get_hosted_zone_id_scans:
  assumes "list_hosted_zones env tr = Inr zones"
  shows "set (zone_name_search zone_name) = {zone_name, other_form zone_name} \<and>
         ((\<exists>hz \<in> set zones. exact_match zone_name hz) \<longrightarrow>
            (\<exists>hz. first_with (exact_match zone_name) zones hz \<and>
                  fst (get_hosted_zone_id env zone_name tr) = Inr (Some (zone_id_tail hz)))) \<and>
         ((\<forall>hz \<in> set zones. \<not> exact_match zone_name hz) \<and>
          (\<exists>hz \<in> set zones. contains_candidate zone_name hz) \<longrightarrow>
            (\<exists>hz. first_with (contains_candidate zone_name) zones hz \<and>
                  fst (get_hosted_zone_id env zone_name tr) = Inr (Some (zone_id_tail hz)))) \<and>
         (fst (get_hosted_zone_id env zone_name tr) = Inr None \<longleftrightarrow>
            (\<forall>hz \<in> set zones.
               \<not> exact_match zone_name hz \<and> \<not> contains_candidate zone_name hz))"
proof (intro conjI impI)
  show "set (zone_name_search zone_name) = {zone_name, other_form zone_name}"
    by (rule zone_name_search_set)
next
  assume "\<exists>hz \<in> set zones. exact_match zone_name hz"
  then obtain hz where f: "find (exact_match zone_name) zones = Some hz"
    by (cases "find (exact_match zone_name) zones") (auto simp add: find_None_iff)
  then have "first_with (exact_match zone_name) zones hz"
    by (simp add: find_first_with)
  moreover have "fst (get_hosted_zone_id env zone_name tr) = Inr (Some (zone_id_tail hz))"
    using f by (simp add: get_hosted_zone_id_listed [OF assms])
  ultimately show "\<exists>hz. first_with (exact_match zone_name) zones hz \<and>
      fst (get_hosted_zone_id env zone_name tr) = Inr (Some (zone_id_tail hz))"
    by blast
next
  assume h: "(\<forall>hz \<in> set zones. \<not> exact_match zone_name hz) \<and>
          (\<exists>hz \<in> set zones. contains_candidate zone_name hz)"
  then have n: "find (exact_match zone_name) zones = None"
    by (simp add: find_None_iff)
  from h obtain hz where f: "find (contains_candidate zone_name) zones = Some hz"
    by (cases "find (contains_candidate zone_name) zones") (auto simp add: find_None_iff)
  then have "first_with (contains_candidate zone_name) zones hz"
    by (simp add: find_first_with)
  moreover have "fst (get_hosted_zone_id env zone_name tr) = Inr (Some (zone_id_tail hz))"
    using f n by (simp add: get_hosted_zone_id_listed [OF assms])
  ultimately show "\<exists>hz. first_with (contains_candidate zone_name) zones hz \<and>
      fst (get_hosted_zone_id env zone_name tr) = Inr (Some (zone_id_tail hz))"
    by blast
next
  show "fst (get_hosted_zone_id env zone_name tr) = Inr None \<longleftrightarrow>
          (\<forall>hz \<in> set zones.
             \<not> exact_match zone_name hz \<and> \<not> contains_candidate zone_name hz)"
    by (auto simp add: get_hosted_zone_id_listed [OF assms] find_None_iff
        split: option.splits dest: find_Some_member)
qed

lemma example_zones:
  "list_hosted_zones example_provider tr
     = Inr [\<lparr>zone_Name = ''example.com.'', zone_Id = ''/hostedzone/Z1''\<rparr>]"
  by (simp add: example_provider_def)

theorem get_hosted_zone_id_scans_witness:
  "fst (get_hosted_zone_id example_provider ''example.com'' []) = Inr (Some ''Z1'') \<and>
   fst (get_hosted_zone_id example_provider ''ample.co'' []) = Inr (Some ''Z1'') \<and>
   fst (get_hosted_zone_id example_provider ''example.org'' []) = Inr None"
  using get_hosted_zone_id_scans [where env = example_provider and tr = "[]"
        and zone_name = "''example.com''", OF example_zones]
    get_hosted_zone_id_scans [where env = example_provider and tr = "[]"
        and zone_name = "''ample.co''", OF example_zones]
    get_hosted_zone_id_scans [where env = example_provider and tr = "[]"
        and zone_name = "''example.org''", OF example_zones]
  by (simp add: exact_match_def contains_candidate_def other_form_def first_with_def
      zone_id_tail_def suffix_to_prefix sublist_Cons_right Cons_eq_append_conv)

text \<open>
  The claim as written also counts a listed zone whose name is a substring of a searched
  name. The code does not: with the single listed zone \<open>example.com.\<close>, the query
  \<open>sub.example.com\<close> searches for \<open>sub.example.com.\<close>, which contains the listed
  name, and the resolver returns \<open>None\<close>.
\<close>

theorem get_hosted_zone_id_reverse_containment_counterexample:
  "''sub.example.com.'' \<in> set (zone_name_search ''sub.example.com'') \<and>
   list_hosted_zones example_provider []
     = Inr [\<lparr>zone_Name = ''example.com.'', zone_Id = ''/hostedzone/Z1''\<rparr>] \<and>
   sublist ''example.com.'' ''sub.example.com.'' \<and>
   get_hosted_zone_id example_provider ''sub.example.com'' [] = (Inr None, [ListHostedZones])"
  by (simp add: get_hosted_zone_id_def zone_name_search_def endswith_def str_in_def
      example_provider_def suffix_to_prefix sublist_Cons_right)

section \<open>The upload driver\<close>

subsection \<open>What one row does\<close>

lemma built_batches_append [simp]:
  "built_batches (xs @ ys) = built_batches xs @ built_batches ys"
  by (simp add: built_batches_def)

lemma built_batches_Nil [simp]: "built_batches [] = []"
  by (simp add: built_batches_def)

lemma built_batches_Cons [simp]: "built_batches (e # es) = event_batch e @ built_batches es"
  by (simp add: built_batches_def)

lemma row_strip_Inr: "row_strip row k = Inr x \<longleftrightarrow> (\<exists>s. row k = Some (Some s) \<and> x = strip s)"
  by (auto simp add: row_strip_def split: option.splits)

lemma parse_row_Inr:
  assumes "parse_row env row = Inr r"
  shows "\<exists>e z t n v s.
           row ''env'' = Some (Some e) \<and> row ''zone'' = Some (Some z) \<and>
           row ''type'' = Some (Some t) \<and> row ''name'' = Some (Some n) \<and>
           row ''value'' = Some (Some v) \<and> row ''ttl'' = Some (Some s) \<and>
           py_int (strip s) = Some (req_ttl r) \<and>
           r = \<lparr>req_env = strip e, req_zone = strip z, req_type = upper (strip t),
                req_name = strip n, req_value = strip v, req_ttl = req_ttl r\<rparr>"
  using assms
  by (auto simp add: parse_row_def row_strip_Inr split: sum.splits option.splits)

lemma get_hosted_zone_id_trace:
  "\<exists>new. snd (get_hosted_zone_id env zone_name tr) = tr @ new \<and> built_batches new = []"
  by (auto simp add: get_hosted_zone_id_def Let_def split: sum.splits option.splits pyexn.splits)

lemma lookup_zone_trace:
  assumes "lookup_zone env zone st = (res, st')"
  shows "\<exists>new. trace st' = trace st @ new \<and> built_batches new = [] \<and>
           successes st' = successes st \<and> failures st' = failures st \<and>
           skipped st' = skipped st"
proof (cases "zone_id_cache st zone")
  case (Some cached)
  with assms show ?thesis by (auto simp add: lookup_zone_def)
next
  case None
  obtain r tr where g: "get_hosted_zone_id env zone (trace st) = (r, tr)"
    by (cases "get_hosted_zone_id env zone (trace st)")
  from get_hosted_zone_id_trace [of env zone "trace st"] g
  obtain new where n: "tr = trace st @ new" "built_batches new = []" by auto
  from assms None g n show ?thesis
    by (cases r) (auto simp add: lookup_zone_def split: if_splits)
qed

lemma upload_record_trace:
  assumes "upload_record env hz rt rn zn v ttl tr = (res, tr')"
  shows "\<exists>new. tr' = tr @ new \<and> built_batches new = [create_change_batch rt rn zn v ttl]"
  using assms
  by (auto simp add: upload_record_def Let_def split: sum.splits pyexn.splits)

lemma row_except_trace:
  assumes "row_except n e st = (res, st')"
  shows "\<exists>new. trace st' = trace st @ new \<and> built_batches new = [] \<and>
           successes st' = successes st \<and> skipped st' = skipped st"
  using assms
  by (auto simp add: row_except_def Let_def emit_def split: pyexn.splits)


lemma process_row_parse_error:
  assumes "parse_row env row = Inl e" and "process_row env dry_run n row st = (res, st')"
  shows "\<exists>new. trace st' = trace st @ new \<and> built_batches new = [] \<and>
           successes st' = successes st \<and> skipped st' = skipped st"
  using assms row_except_trace [of n e st res st']
  by (simp add: process_row_def)

lemma process_row_parsed:
  assumes p: "parse_row env row = Inr r"
    and run: "process_row env dry_run n row st = (res, st')"
  shows "\<exists>new. trace st' = trace st @ new \<and>
           (built_batches new = [] \<or>
            built_batches new =
              [create_change_batch (req_type r) (req_name r) (req_zone r) (req_value r)
                 (req_ttl r)])"
  using p run
  by (auto simp add: process_row_def Let_def emit_def
      split: prod.splits sum.splits if_splits
      dest!: lookup_zone_trace upload_record_trace row_except_trace)


lemma process_row_effects:
  assumes "process_row env dry_run n row st = (res, st')"
  shows "\<exists>new. trace st' = trace st @ new \<and>
           (case parse_row env row of
              Inl e \<Rightarrow> built_batches new = [] \<and> successes st' = successes st \<and>
                       skipped st' = skipped st
            | Inr r \<Rightarrow> built_batches new = [] \<or>
                built_batches new =
                  [create_change_batch (req_type r) (req_name r) (req_zone r) (req_value r)
                     (req_ttl r)])"
proof (cases "parse_row env row")
  case (Inl e)
  with process_row_parse_error [OF Inl assms] show ?thesis by simp
next
  case (Inr r)
  with process_row_parsed [OF Inr assms] show ?thesis by simp
qed

lemma batch_ttls_create [simp]:
  "batch_ttls (create_change_batch rt rn zn v ttl) = [ttl]"
  by (simp add: batch_ttls_def create_change_batch_def Let_def)

lemma batch_types_create [simp]:
  "batch_types (create_change_batch rt rn zn v ttl) = [rt]"
  by (simp add: batch_types_def create_change_batch_def Let_def)

lemma supported_upper_fixed: "T \<in> set supported_types \<Longrightarrow> upper (strip T) = T"
proof -
  have "\<forall>T \<in> set supported_types. upper (strip T) = T" by code_simp
  then show "T \<in> set supported_types \<Longrightarrow> upper (strip T) = T" by blast
qed

lemma row_strip_upd:
  "row_strip (row(k \<mapsto> Some s)) k' = (if k' = k then Inr (strip s) else row_strip row k')"
  by (simp add: row_strip_def)

lemma row_strip_present: "row k = Some (Some s) \<Longrightarrow> row_strip row k = Inr (strip s)"
  by (simp add: row_strip_def)

lemma parse_row_type_cong:
  assumes "row ''type'' = Some (Some t)" and "upper (strip t') = upper (strip t)"
  shows "parse_row env (row(''type'' \<mapsto> Some t')) = parse_row env row"
  using assms
  by (simp add: parse_row_def row_strip_upd row_strip_present
      cong: sum.case_cong option.case_cong)

lemma process_row_type_cong:
  assumes "row ''type'' = Some (Some t)" and "upper (strip t') = upper (strip t)"
  shows "process_row env dry_run n (row(''type'' \<mapsto> Some t')) st
           = process_row env dry_run n row st"
  using parse_row_type_cong [of row t t' env] assms
  by (simp add: process_row_def)

lemma rows_loop_ending: "fst (rows_loop env dry_run n rows st) \<noteq> SysExit c"
  by (induction rows arbitrary: n st) (auto split: prod.splits option.splits)

text \<open>Unfolding the model on concrete inputs.\<close>

lemma upper_examples:
  "upper ''A'' = ''A''" "upper ''cname'' = ''CNAME''" "upper ''CNAME'' = ''CNAME''"
  by code_simp+

lemmas eval_defs = process_csv_def file_with_header_def example_file_def reader_fieldnames_def
  expected_headers_def dict_reader_def dict_row_def process_row_def parse_row_def
  row_strip_def strip_def isspace_def py_int_def digits_def isdigit_def digit_val_def
  lookup_zone_def initial_state_def get_hosted_zone_id_def example_provider_def
  zone_name_search_def endswith_def suffix_to_prefix str_in_def sublist_Cons_right
  truthy_def emit_def Let_def supported_types_def upload_record_def
  row_except_def str_nat.simps str_int_def upper_examples create_change_batch_def
  batch_ttls_def batch_types_def batch_names_def batch_values_def
  negative_ttl_fields_def lower_case_fields_def short_fields_def good_fields_def

subsection \<open>The TTL of a request\<close>

text \<open>
  C5, as the code has it. For every row the loop body processes: the TTL of the request
  built from the row is the integer that \<open>int()\<close> reads from the stripped \<open>ttl\<close>
  field; and if the row is counted as succeeded or skipped, or a change batch is built
  for it, then \<open>int()\<close> did read an integer from that field, and every batch built for
  the row carries that integer as its TTL. So a row whose \<open>ttl\<close> field \<open>int()\<close> rejects
  is not turned into a change batch. The integer may be negative: the code has no test
  of its sign.
\<close>

theorem process_row_ttl:
  assumes "process_row env dry_run row_num row st = (res, st')"
  shows "(\<forall>r. parse_row env row = Inr r \<longrightarrow>
            (\<exists>s. row ''ttl'' = Some (Some s) \<and> py_int (strip s) = Some (req_ttl r))) \<and>
         (\<exists>new. trace st' = trace st @ new \<and>
            (built_batches new \<noteq> [] \<or> successes st' \<noteq> successes st \<or>
             skipped st' \<noteq> skipped st \<longrightarrow>
               (\<exists>s i. row ''ttl'' = Some (Some s) \<and> py_int (strip s) = Some i \<and>
                      (\<forall>b \<in> set (built_batches new). batch_ttls b = [i]))))"
proof (intro conjI allI impI)
  fix r
  assume "parse_row env row = Inr r"
  from parse_row_Inr [OF this]
  show "\<exists>s. row ''ttl'' = Some (Some s) \<and> py_int (strip s) = Some (req_ttl r)"
    by blast
next
  from process_row_effects [OF assms] obtain new
    where n: "trace st' = trace st @ new"
      and c: "case parse_row env row of
              Inl e \<Rightarrow> built_batches new = [] \<and> successes st' = successes st \<and>
                       skipped st' = skipped st
            | Inr r \<Rightarrow> built_batches new = [] \<or>
                built_batches new =
                  [create_change_batch (req_type r) (req_name r) (req_zone r) (req_value r)
                     (req_ttl r)]"
    by blast
  have "built_batches new \<noteq> [] \<or> successes st' \<noteq> successes st \<or>
            skipped st' \<noteq> skipped st \<longrightarrow>
              (\<exists>s i. row ''ttl'' = Some (Some s) \<and> py_int (strip s) = Some i \<and>
                     (\<forall>b \<in> set (built_batches new). batch_ttls b = [i]))"
  proof (cases "parse_row env row")
    case (Inl e)
    with c show ?thesis by simp
  next
    case (Inr r)
    from parse_row_Inr [OF Inr] obtain s
      where "row ''ttl'' = Some (Some s)" "py_int (strip s) = Some (req_ttl r)"
      by blast
    moreover from c Inr have "\<forall>b \<in> set (built_batches new). batch_ttls b = [req_ttl r]"
      by auto
    ultimately show ?thesis by blast
  qed
  with n show "\<exists>new. trace st' = trace st @ new \<and>
            (built_batches new \<noteq> [] \<or> successes st' \<noteq> successes st \<or>
             skipped st' \<noteq> skipped st \<longrightarrow>
               (\<exists>s i. row ''ttl'' = Some (Some s) \<and> py_int (strip s) = Some i \<and>
                      (\<forall>b \<in> set (built_batches new). batch_ttls b = [i])))"
    by blast
qed

theorem process_row_ttl_witness:
  "\<exists>new. trace (snd (process_row example_provider True 2
                       (dict_row expected_headers negative_ttl_fields) initial_state))
            = trace initial_state @ new \<and>
         built_batches new \<noteq> [] \<and>
         (\<exists>s i. dict_row expected_headers negative_ttl_fields ''ttl'' = Some (Some s) \<and>
                py_int (strip s) = Some i \<and>
                (\<forall>b \<in> set (built_batches new). batch_ttls b = [i]))"
proof -
  from process_row_ttl [where env = example_provider and dry_run = True and row_num = 2
      and row = "dict_row expected_headers negative_ttl_fields" and st = initial_state,
      OF surjective_pairing, THEN conjunct2]
  obtain new
    where n: "trace (snd (process_row example_provider True 2
                       (dict_row expected_headers negative_ttl_fields) initial_state))
            = trace initial_state @ new"
      and i: "built_batches new \<noteq> [] \<or>
              successes (snd (process_row example_provider True 2
                       (dict_row expected_headers negative_ttl_fields) initial_state))
                \<noteq> successes initial_state \<or>
              skipped (snd (process_row example_provider True 2
                       (dict_row expected_headers negative_ttl_fields) initial_state))
                \<noteq> skipped initial_state \<longrightarrow>
              (\<exists>s i. dict_row expected_headers negative_ttl_fields ''ttl'' = Some (Some s) \<and>
                py_int (strip s) = Some i \<and>
                (\<forall>b \<in> set (built_batches new). batch_ttls b = [i]))"
    by blast
  have "built_batches (trace (snd (process_row example_provider True 2
                       (dict_row expected_headers negative_ttl_fields) initial_state))) \<noteq> []"
    by (simp add: eval_defs)
  with n have "built_batches new \<noteq> []" by (simp add: initial_state_def)
  with n i show ?thesis by blast
qed

text \<open>
  The claim as written asks for a non-negative TTL. The row with the \<open>ttl\<close> field
  \<open>-5\<close> is counted as succeeded, and its batch carries the TTL \<open>-5\<close>.
\<close>

theorem process_csv_negative_ttl_counterexample:
  "fst (process_csv example_provider (example_file [negative_ttl_fields]) True) = Completed \<and>
   successes (snd (process_csv example_provider (example_file [negative_ttl_fields]) True)) = 1 \<and>
   failures (snd (process_csv example_provider (example_file [negative_ttl_fields]) True)) = 0 \<and>
   map batch_ttls (built_batches (trace (snd
     (process_csv example_provider (example_file [negative_ttl_fields]) True)))) = [[- 5]]"
  by (simp add: eval_defs)

subsection \<open>The header test\<close>

text \<open>
  C6. For every existing CSV file whose header row is missing or, read as a set of column
  names, differs from the six expected names, \<open>process_csv\<close> ends with
  \<open>sys.exit(1)\<close> after printing one line: no change batch is built, the provider is
  not called, and no row is counted. A header with the six names in any order passes the
  test: the run then never ends with \<open>sys.exit(1)\<close>.
\<close>

theorem process_csv_bad_header:
  assumes "file_exists f"
  shows "((\<forall>h. reader_fieldnames f = Some h \<longrightarrow> set h \<noteq> set expected_headers) \<longrightarrow>
            fst (process_csv env f dry_run) = SysExit 1 \<and>
            (\<exists>text. trace (snd (process_csv env f dry_run)) = [Print text]) \<and>
            built_batches (trace (snd (process_csv env f dry_run))) = [] \<and>
            filter is_provider_call (trace (snd (process_csv env f dry_run))) = [] \<and>
            successes (snd (process_csv env f dry_run)) = 0 \<and>
            failures (snd (process_csv env f dry_run)) = 0 \<and>
            skipped (snd (process_csv env f dry_run)) = 0) \<and>
         ((\<exists>h. reader_fieldnames f = Some h \<and> set h = set expected_headers) \<longrightarrow>
            fst (process_csv env f dry_run) \<noteq> SysExit 1)"
proof (intro conjI impI)
  assume bad: "\<forall>h. reader_fieldnames f = Some h \<longrightarrow> set h \<noteq> set expected_headers"
  have "process_csv env f dry_run =
          (SysExit 1,
           emit [Print (Fore_RED
                   @ ''Error: CSV file must have these headers: env,zone,type,name,value,ttl''
                   @ Style_RESET_ALL)] initial_state)"
    using assms bad
    by (cases "reader_fieldnames f") (simp_all add: process_csv_def Let_def)
  then show "fst (process_csv env f dry_run) = SysExit 1"
    and "\<exists>text. trace (snd (process_csv env f dry_run)) = [Print text]"
    and "built_batches (trace (snd (process_csv env f dry_run))) = []"
    and "filter is_provider_call (trace (snd (process_csv env f dry_run))) = []"
    and "successes (snd (process_csv env f dry_run)) = 0"
    and "failures (snd (process_csv env f dry_run)) = 0"
    and "skipped (snd (process_csv env f dry_run)) = 0"
    by (simp_all add: emit_def initial_state_def)
next
  assume "\<exists>h. reader_fieldnames f = Some h \<and> set h = set expected_headers"
  then obtain h where h: "reader_fieldnames f = Some h" "set h = set expected_headers"
    by blast
  have "h \<noteq> []"
  proof
    assume "h = []"
    with h(2) have "set expected_headers = {}" by simp
    then show False by (simp add: expected_headers_def)
  qed
  with assms h rows_loop_ending [of env dry_run 2 "dict_reader h (tl (reader_rows f))"
      initial_state 1]
  show "fst (process_csv env f dry_run) \<noteq> SysExit 1"
    by (auto simp add: process_csv_def Let_def split: prod.splits ending.splits)
qed


theorem process_csv_bad_header_witness:
  "fst (process_csv example_provider
          (file_with_header [''env'', ''zone'', ''type'', ''name'', ''value''] [good_fields])
          False) = SysExit 1 \<and>
   filter is_provider_call (trace (snd (process_csv example_provider
          (file_with_header [''env'', ''zone'', ''type'', ''name'', ''value''] [good_fields])
          False))) = [] \<and>
   fst (process_csv example_provider
          (file_with_header [''ttl'', ''value'', ''name'', ''type'', ''zone'', ''env'']
             [rev good_fields])
          True) \<noteq> SysExit 1"
proof -
  have e1: "file_exists
      (file_with_header [''env'', ''zone'', ''type'', ''name'', ''value''] [good_fields])"
    by (simp add: file_with_header_def)
  have b1: "\<forall>h. reader_fieldnames
      (file_with_header [''env'', ''zone'', ''type'', ''name'', ''value''] [good_fields])
        = Some h \<longrightarrow> set h \<noteq> set expected_headers"
  proof (intro allI impI)
    fix h
    assume "reader_fieldnames
      (file_with_header [''env'', ''zone'', ''type'', ''name'', ''value''] [good_fields])
        = Some h"
    then have "''ttl'' \<notin> set h"
      by (auto simp add: file_with_header_def reader_fieldnames_def)
    moreover have "''ttl'' \<in> set expected_headers"
      by (simp add: expected_headers_def)
    ultimately show "set h \<noteq> set expected_headers" by blast
  qed
  have e2: "file_exists
      (file_with_header [''ttl'', ''value'', ''name'', ''type'', ''zone'', ''env'']
         [rev good_fields])"
    by (simp add: file_with_header_def)
  have g2: "\<exists>h. reader_fieldnames
      (file_with_header [''ttl'', ''value'', ''name'', ''type'', ''zone'', ''env'']
         [rev good_fields]) = Some h \<and> set h = set expected_headers"
  proof -
    have "set [''ttl'', ''value'', ''name'', ''type'', ''zone'', ''env''] = set expected_headers"
      by (auto simp add: expected_headers_def)
    then show ?thesis
      by (simp add: file_with_header_def reader_fieldnames_def)
  qed
  note w1 = process_csv_bad_header [OF e1, of example_provider False, THEN conjunct1,
      THEN mp, OF b1]
  note w2 = process_csv_bad_header [OF e2, of example_provider True, THEN conjunct2,
      THEN mp, OF g2]
  from w1 [THEN conjunct1] w1 [THEN conjunct2, THEN conjunct2, THEN conjunct2, THEN conjunct1]
    w2
  show ?thesis by (intro conjI)
qed

lemma reordered_header_set:
  "{''ttl'', ''value'', ''name'', ''type'', ''zone'', ''env''}
     = {''env'', ''zone'', ''type'', ''name'', ''value'', ''ttl''}"
  by auto

text \<open>
  With the header reordered and the fields of the row reordered with it, the run builds
  the same batch as with the expected order.
\<close>

lemma process_csv_reordered_header:
  "map batch_names (built_batches (trace (snd (process_csv example_provider
          (file_with_header [''ttl'', ''value'', ''name'', ''type'', ''zone'', ''env'']
             [rev good_fields])
          True)))) = [[''www.example.com.'']] \<and>
   built_batches (trace (snd (process_csv example_provider
          (file_with_header [''ttl'', ''value'', ''name'', ''type'', ''zone'', ''env'']
             [rev good_fields])
          True)))
   = built_batches (trace (snd (process_csv example_provider (example_file [good_fields])
          True)))"
  by (simp add: eval_defs reordered_header_set)

subsection \<open>Errors of one row\<close>

text \<open>
  A row with all six fields whose \<open>ttl\<close> field \<open>int()\<close> rejects: the \<open>ValueError\<close>
  is caught, one line is printed, the row is counted as failed and the loop goes on.
\<close>

lemma process_row_bad_ttl:
  assumes "row ''env'' = Some (Some e)" and "row ''zone'' = Some (Some z)"
    and "row ''type'' = Some (Some t)" and "row ''name'' = Some (Some n)"
    and "row ''value'' = Some (Some v)" and "row ''ttl'' = Some (Some s)"
    and "py_int (strip s) = None"
  shows "process_row env dry_run row_num row st =
           (None,
            st\<lparr>trace := trace st @
                    [Print (Fore_RED @ ''Error processing row '' @ str_nat row_num @ '': ''
                            @ int_error_text env (strip s) @ Style_RESET_ALL)],
               failures := failures st + 1\<rparr>)"
proof -
  have "parse_row env row = Inl (ValueError (int_error_text env (strip s)))"
    using assms by (simp add: parse_row_def row_strip_present)
  then show ?thesis
    by (simp add: process_row_def row_except_def emit_def)
qed

text \<open>
  A row that is short of its last field: the reader fills \<open>ttl\<close> with \<open>None\<close>, the
  \<open>strip\<close> call raises an \<open>AttributeError\<close>, which the \<open>except\<close> clause does not
  name, and the exception leaves the loop with the state untouched.
\<close>

lemma process_row_missing_ttl:
  assumes "row ''env'' = Some (Some e)" and "row ''zone'' = Some (Some z)"
    and "row ''type'' = Some (Some t)" and "row ''name'' = Some (Some n)"
    and "row ''value'' = Some (Some v)" and "row ''ttl'' = Some None"
  shows "\<exists>text. process_row env dry_run row_num row st = (Some (AttributeError text), st)"
proof -
  have "\<exists>text. parse_row env row = Inl (AttributeError text)"
    using assms by (simp add: parse_row_def row_strip_present) (simp add: row_strip_def)
  then show ?thesis
    by (auto simp add: process_row_def row_except_def)
qed

lemma dict_row_short:
  "dict_row expected_headers [e, z, t, n, v] =
     [''env'' \<mapsto> Some e, ''zone'' \<mapsto> Some z, ''type'' \<mapsto> Some t, ''name'' \<mapsto> Some n,
      ''value'' \<mapsto> Some v, ''ttl'' \<mapsto> None]"
  by (simp add: dict_row_def expected_headers_def)

text \<open>
  C7 on the code. The file has the expected header, a data row with five fields and a
  well-formed data row. The run ends with the uncaught \<open>AttributeError\<close> of the first
  data row: nothing is counted, nothing is printed and the second data row is never
  processed. Without the short row the same file completes with one success.
\<close>

theorem process_csv_short_row_uncaught:
  "(\<exists>text. fst (process_csv example_provider (example_file [short_fields, good_fields]) True)
             = Uncaught (AttributeError text)) \<and>
   snd (process_csv example_provider (example_file [short_fields, good_fields]) True)
     = initial_state \<and>
   fst (process_csv example_provider (example_file [good_fields]) True) = Completed \<and>
   successes (snd (process_csv example_provider (example_file [good_fields]) True)) = 1"
  by (simp add: eval_defs)

subsection \<open>The record type\<close>

text \<open>
  C10. For every row the loop body processes, every change batch built for it has as its
  \<open>Type\<close> the row's \<open>type\<close> field stripped and upper-cased. And a row whose
  \<open>type\<close> field upper-cases to a supported type is processed exactly as the row that
  holds the upper-case spelling itself: same result, same counters, same events.
\<close>

theorem process_row_type_upper:
  assumes "process_row env dry_run row_num row st = (res, st')"
  shows "(\<exists>new. trace st' = trace st @ new \<and>
            (\<forall>b \<in> set (built_batches new).
               \<exists>t. row ''type'' = Some (Some t) \<and> batch_types b = [upper (strip t)])) \<and>
         (\<forall>t T. row ''type'' = Some (Some t) \<and> T \<in> set supported_types \<and>
                 upper (strip t) = T \<longrightarrow>
                 process_row env dry_run row_num (row(''type'' \<mapsto> Some T)) st = (res, st'))"
proof (intro conjI allI impI)
  from process_row_effects [OF assms] obtain new
    where n: "trace st' = trace st @ new"
      and c: "case parse_row env row of
              Inl e \<Rightarrow> built_batches new = [] \<and> successes st' = successes st \<and>
                       skipped st' = skipped st
            | Inr r \<Rightarrow> built_batches new = [] \<or>
                built_batches new =
                  [create_change_batch (req_type r) (req_name r) (req_zone r) (req_value r)
                     (req_ttl r)]"
    by blast
  have "\<forall>b \<in> set (built_batches new).
               \<exists>t. row ''type'' = Some (Some t) \<and> batch_types b = [upper (strip t)]"
  proof (cases "parse_row env row")
    case (Inl e)
    with c show ?thesis by simp
  next
    case (Inr r)
    from parse_row_Inr [OF Inr] obtain t
      where "row ''type'' = Some (Some t)" "req_type r = upper (strip t)"
      by (metis dns_request.select_convs(3))
    moreover from c Inr have "\<forall>b \<in> set (built_batches new). batch_types b = [req_type r]"
      by auto
    ultimately show ?thesis by auto
  qed
  with n show "\<exists>new. trace st' = trace st @ new \<and>
            (\<forall>b \<in> set (built_batches new).
               \<exists>t. row ''type'' = Some (Some t) \<and> batch_types b = [upper (strip t)])"
    by blast
next
  fix t T
  assume h: "row ''type'' = Some (Some t) \<and> T \<in> set supported_types \<and> upper (strip t) = T"
  then have "upper (strip T) = upper (strip t)" by (simp add: supported_upper_fixed)
  with h have "process_row env dry_run row_num (row(''type'' \<mapsto> Some T)) st
           = process_row env dry_run row_num row st"
    by (simp add: process_row_type_cong)
  with assms show "process_row env dry_run row_num (row(''type'' \<mapsto> Some T)) st = (res, st')"
    by simp
qed



theorem process_row_type_upper_witness:
  "map batch_types (built_batches (trace (snd (process_row example_provider True 2
       (dict_row expected_headers lower_case_fields) initial_state)))) = [[''CNAME'']] \<and>
   process_row example_provider True 2
       ((dict_row expected_headers lower_case_fields)(''type'' \<mapsto> Some ''CNAME''))
       initial_state
     = process_row example_provider True 2
       (dict_row expected_headers lower_case_fields) initial_state"
proof -
  have t: "dict_row expected_headers lower_case_fields ''type'' = Some (Some ''cname'')"
    by (simp add: dict_row_def expected_headers_def lower_case_fields_def)
  have u: "''CNAME'' \<in> set supported_types \<and> upper (strip ''cname'') = ''CNAME''"
    by (simp add: supported_types_def strip_def isspace_def upper_examples)
  from process_row_type_upper [OF surjective_pairing, of example_provider True 2
      "dict_row expected_headers lower_case_fields" initial_state] t u
  have "process_row example_provider True 2
       ((dict_row expected_headers lower_case_fields)(''type'' \<mapsto> Some ''CNAME''))
       initial_state
     = process_row example_provider True 2
       (dict_row expected_headers lower_case_fields) initial_state"
    by simp
  moreover have "map batch_types (built_batches (trace (snd (process_row example_provider
       True 2 (dict_row expected_headers lower_case_fields) initial_state)))) = [[''CNAME'']]"
    by (simp add: eval_defs)
  ultimately show ?thesis by simp
qed

section \<open>The instance locator and the reboot driver\<close>

subsection \<open>The locator\<close>

lemma get_instance_by_name_events:
  "\<exists>rest. snd (get_instance_by_name env name tr) =
      tr @ DescribeInstances (ByFilters
            [(''tag:Name'', [name]),
             (''instance-state-name'', [''pending'', ''running'', ''stopping'', ''stopped''])])
         # rest \<and> (\<forall>e \<in> set rest. is_printed e)"
  by (auto simp add: get_instance_by_name_def Let_def split: sum.splits pyexn.splits)

lemma get_instance_by_name_listed:
  assumes "describe_instances env tr (ByFilters
            [(''tag:Name'', [name]),
             (''instance-state-name'', [''pending'', ''running'', ''stopping'', ''stopped''])])
           = Inr reservations"
  shows "(instance_ids reservations = [] \<longrightarrow>
            fst (get_instance_by_name env name tr) = Inr None) \<and>
         (length (instance_ids reservations) > 1 \<longrightarrow>
            fst (get_instance_by_name env name tr) = Inr None \<and>
            (\<forall>i \<in> set (instance_ids reservations).
               Printed (''  - '' @ i) \<in> set (snd (get_instance_by_name env name tr)))) \<and>
         (\<forall>i. instance_ids reservations = [i] \<longrightarrow>
            fst (get_instance_by_name env name tr) = Inr (Some i))"
  using assms
  by (auto simp add: get_instance_by_name_def Let_def instance_ids_def)

lemma is_printed_not_reboot: "is_printed e \<Longrightarrow> \<not> is_reboot_call e"
  by (cases e) simp_all

lemma main_locator_failed:
  assumes "truthy (arg_name args)"
    and "fst (get_instance_by_name env (the (arg_name args)) banner) = Inr r"
    and "\<not> truthy r"
  shows "fst (main env args) = SysExit 1 \<and>
         (\<forall>e \<in> set (snd (main env args)). \<not> is_reboot_call e)"
proof -
  obtain tr where g: "get_instance_by_name env (the (arg_name args)) banner = (Inr r, tr)"
    using assms(2) by (cases "get_instance_by_name env (the (arg_name args)) banner") simp
  from get_instance_by_name_events [of env "the (arg_name args)" banner] g
  obtain rest where tr: "tr = banner @ DescribeInstances (ByFilters
            [(''tag:Name'', [the (arg_name args)]),
             (''instance-state-name'', [''pending'', ''running'', ''stopping'', ''stopped''])])
         # rest" and rest: "\<forall>e \<in> set rest. is_printed e"
    by auto
  have "\<forall>e \<in> set banner. is_printed e" by (simp add: banner_def)
  with tr rest have "\<forall>e \<in> set tr. \<not> is_reboot_call e"
    by (auto dest: is_printed_not_reboot)
  moreover from assms g have "main env args = (SysExit 1, tr)"
    by (simp add: main_def Let_def)
  ultimately show ?thesis by simp
qed

text \<open>
  C8. For every name-tag query, the locator asks the provider for the instances with that
  \<open>Name\<close> tag in the states pending, running, stopping and stopped, and makes no other
  call. When the answer lists no instance it returns \<open>None\<close>; when it lists more than
  one it returns \<open>None\<close> and prints every listed identifier; when it lists exactly
  one it returns that identifier. And whenever the locator returns \<open>None\<close> to the
  reboot driver, the driver ends with \<open>sys.exit(1)\<close> and its events hold no call of
  the reboot operation.
\<close>

theorem locator_failure:
  "(describe_instances env tr (ByFilters
       [(''tag:Name'', [name]),
        (''instance-state-name'', [''pending'', ''running'', ''stopping'', ''stopped''])])
      = Inr reservations \<longrightarrow>
      (instance_ids reservations = [] \<longrightarrow>
         fst (get_instance_by_name env name tr) = Inr None) \<and>
      (length (instance_ids reservations) > 1 \<longrightarrow>
         fst (get_instance_by_name env name tr) = Inr None \<and>
         (\<forall>i \<in> set (instance_ids reservations).
            Printed (''  - '' @ i) \<in> set (snd (get_instance_by_name env name tr)))) \<and>
      (\<forall>i. instance_ids reservations = [i] \<longrightarrow>
         fst (get_instance_by_name env name tr) = Inr (Some i))) \<and>
   (\<exists>rest. snd (get_instance_by_name env name tr) =
      tr @ DescribeInstances (ByFilters
            [(''tag:Name'', [name]),
             (''instance-state-name'', [''pending'', ''running'', ''stopping'', ''stopped''])])
         # rest \<and> (\<forall>e \<in> set rest. is_printed e)) \<and>
   (truthy (arg_name args) \<and>
    fst (get_instance_by_name env (the (arg_name args)) banner) = Inr None \<longrightarrow>
      fst (main env args) = SysExit 1 \<and>
      (\<forall>e \<in> set (snd (main env args)). \<not> is_reboot_call e))"
proof (intro conjI)
  show "describe_instances env tr (ByFilters
       [(''tag:Name'', [name]),
        (''instance-state-name'', [''pending'', ''running'', ''stopping'', ''stopped''])])
      = Inr reservations \<longrightarrow>
      (instance_ids reservations = [] \<longrightarrow>
         fst (get_instance_by_name env name tr) = Inr None) \<and>
      (length (instance_ids reservations) > 1 \<longrightarrow>
         fst (get_instance_by_name env name tr) = Inr None \<and>
         (\<forall>i \<in> set (instance_ids reservations).
            Printed (''  - '' @ i) \<in> set (snd (get_instance_by_name env name tr)))) \<and>
      (\<forall>i. instance_ids reservations = [i] \<longrightarrow>
         fst (get_instance_by_name env name tr) = Inr (Some i))"
    using get_instance_by_name_listed [of env tr name reservations] by blast
next
  show "\<exists>rest. snd (get_instance_by_name env name tr) =
      tr @ DescribeInstances (ByFilters
            [(''tag:Name'', [name]),
             (''instance-state-name'', [''pending'', ''running'', ''stopping'', ''stopped''])])
         # rest \<and> (\<forall>e \<in> set rest. is_printed e)"
    by (rule get_instance_by_name_events)
next
  show "truthy (arg_name args) \<and>
    fst (get_instance_by_name env (the (arg_name args)) banner) = Inr None \<longrightarrow>
      fst (main env args) = SysExit 1 \<and>
      (\<forall>e \<in> set (snd (main env args)). \<not> is_reboot_call e)"
  proof
    assume h: "truthy (arg_name args) \<and>
      fst (get_instance_by_name env (the (arg_name args)) banner) = Inr None"
    have "\<not> truthy None" by (simp add: truthy_def)
    with h main_locator_failed [of args env None] show "fst (main env args) = SysExit 1 \<and>
      (\<forall>e \<in> set (snd (main env args)). \<not> is_reboot_call e)"
      by blast
  qed
qed

text \<open>Unfolding the model of the reboot tool on concrete inputs.\<close>

lemmas ec2_eval_defs = main_def reboot_and_wait_def closing_lines_def state_lines_def
  get_instance_by_name_def reboot_instance_def
  reboot_answered_def reboot_except_def
  wait_for_instance_ok_def post_check_def verbose_lines_def EC2Rebooter_def banner_def
  fixed_ec2_def args_by_id_def args_by_name_def running_instance_def dry_run_answer_def
  truthy_def str_opt_def Let_def instance_ids_def would_reboot_line_def

theorem locator_failure_witness:
  "fst (get_instance_by_name
          (fixed_ec2 [\<lparr>Instances = [running_instance ''i-0a1'', running_instance ''i-0b2'']\<rparr>]
             dry_run_answer) ''web'' []) = Inr None \<and>
   Printed ''  - i-0a1'' \<in> set (snd (get_instance_by_name
          (fixed_ec2 [\<lparr>Instances = [running_instance ''i-0a1'', running_instance ''i-0b2'']\<rparr>]
             dry_run_answer) ''web'' [])) \<and>
   Printed ''  - i-0b2'' \<in> set (snd (get_instance_by_name
          (fixed_ec2 [\<lparr>Instances = [running_instance ''i-0a1'', running_instance ''i-0b2'']\<rparr>]
             dry_run_answer) ''web'' [])) \<and>
   fst (get_instance_by_name (fixed_ec2 [] dry_run_answer) ''web'' []) = Inr None \<and>
   fst (main
          (fixed_ec2 [\<lparr>Instances = [running_instance ''i-0a1'', running_instance ''i-0b2'']\<rparr>]
             dry_run_answer) (args_by_name ''web'' False)) = SysExit 1 \<and>
   filter is_reboot_call (snd (main
          (fixed_ec2 [\<lparr>Instances = [running_instance ''i-0a1'', running_instance ''i-0b2'']\<rparr>]
             dry_run_answer) (args_by_name ''web'' False))) = []"
proof -
  let ?two = "[\<lparr>Instances = [running_instance ''i-0a1'', running_instance ''i-0b2'']\<rparr>]"
  let ?env = "fixed_ec2 ?two dry_run_answer"
  have d2: "describe_instances ?env [] (ByFilters
       [(''tag:Name'', [''web'']),
        (''instance-state-name'', [''pending'', ''running'', ''stopping'', ''stopped''])])
      = Inr ?two"
    by (simp add: fixed_ec2_def)
  have i2: "instance_ids ?two = [''i-0a1'', ''i-0b2'']"
    by (simp add: instance_ids_def running_instance_def)
  have d0: "describe_instances (fixed_ec2 [] dry_run_answer) [] (ByFilters
       [(''tag:Name'', [''web'']),
        (''instance-state-name'', [''pending'', ''running'', ''stopping'', ''stopped''])])
      = Inr []"
    by (simp add: fixed_ec2_def)
  have i0: "instance_ids [] = []"
    by (simp add: instance_ids_def)
  have n: "truthy (arg_name (args_by_name ''web'' False))"
    by (simp add: truthy_def args_by_name_def)
  have g: "fst (get_instance_by_name ?env (the (arg_name (args_by_name ''web'' False))) banner)
             = Inr None"
    by (simp add: ec2_eval_defs)
  note two = locator_failure [of ?env "[]" "''web''" ?two "args_by_name ''web'' False"]
  note none = locator_failure [of "fixed_ec2 [] dry_run_answer" "[]" "''web''" "[]"
      "args_by_name ''web'' False"]
  from two [THEN conjunct1, THEN mp, OF d2] i2
  have a: "fst (get_instance_by_name ?env ''web'' []) = Inr None \<and>
           Printed ''  - i-0a1'' \<in> set (snd (get_instance_by_name ?env ''web'' [])) \<and>
           Printed ''  - i-0b2'' \<in> set (snd (get_instance_by_name ?env ''web'' []))"
    by simp
  from none [THEN conjunct1, THEN mp, OF d0] i0
  have b: "fst (get_instance_by_name (fixed_ec2 [] dry_run_answer) ''web'' []) = Inr None"
    by simp
  from two [THEN conjunct2, THEN conjunct2, THEN mp] n g
  have c: "fst (main ?env (args_by_name ''web'' False)) = SysExit 1 \<and>
           (\<forall>e \<in> set (snd (main ?env (args_by_name ''web'' False))). \<not> is_reboot_call e)"
    by blast
  then have "filter is_reboot_call (snd (main ?env (args_by_name ''web'' False))) = []"
    by (simp add: filter_empty_conv)
  with a b c show ?thesis by simp
qed

subsection \<open>Dry runs\<close>

text \<open>
  The four ways \<open>reboot_instance\<close> proceeds: the pre-check query raises; it lists no
  instance; the reboot call raises; the reboot call returns. Before the reboot call
  there are only printed lines and the one query.
\<close>

lemma reboot_instance_shape:
  "(\<exists>e line.
       describe_instances env (tr @ [Printed line]) (ByInstanceIds [instance_id]) = Inl e \<and>
       reboot_instance self env instance_id dry_run tr =
         reboot_except instance_id e
           (tr @ [Printed line, DescribeInstances (ByInstanceIds [instance_id])])) \<or>
   (\<exists>line line' reservations.
       describe_instances env (tr @ [Printed line]) (ByInstanceIds [instance_id])
         = Inr reservations \<and>
       (reservations = [] \<or> Instances (hd reservations) = []) \<and>
       reboot_instance self env instance_id dry_run tr =
         (Inr False,
          tr @ [Printed line, DescribeInstances (ByInstanceIds [instance_id]),
                Printed line'])) \<or>
   (\<exists>e line mid. (\<forall>ev \<in> set mid. is_printed ev) \<and>
       reboot_instances env
         (tr @ [Printed line, DescribeInstances (ByInstanceIds [instance_id])] @ mid)
         [instance_id] dry_run = Inl e \<and>
       reboot_instance self env instance_id dry_run tr =
         reboot_except instance_id e
           (tr @ [Printed line, DescribeInstances (ByInstanceIds [instance_id])] @ mid
               @ [RebootInstances [instance_id] dry_run])) \<or>
   (\<exists>instance_state response line mid. (\<forall>ev \<in> set mid. is_printed ev) \<and>
       reboot_instances env
         (tr @ [Printed line, DescribeInstances (ByInstanceIds [instance_id])] @ mid)
         [instance_id] dry_run = Inr response \<and>
       reboot_instance self env instance_id dry_run tr =
         reboot_answered self env instance_id dry_run instance_state response
           (tr @ [Printed line, DescribeInstances (ByInstanceIds [instance_id])] @ mid
               @ [RebootInstances [instance_id] dry_run]))"
  unfolding reboot_instance_def Let_def
  apply (split sum.split, intro conjI allI impI)
  subgoal by (rule disjI1) auto
  apply (split list.split, intro conjI allI impI)
  subgoal by (rule disjI2, rule disjI1) auto
  apply (split list.split, intro conjI allI impI)
  subgoal by (rule disjI2, rule disjI1) auto
  apply (split sum.split, intro conjI allI impI)
  subgoal for reservations r rs inst others e
    apply (rule disjI2, rule disjI2, rule disjI1)
    apply (rule exI [of _ e], rule exI, rule exI [of _ "state_lines (State_Name inst)"])
    apply (simp add: state_lines_def)
    done
  subgoal for reservations r rs inst others response
    apply (rule disjI2, rule disjI2, rule disjI2)
    apply (rule exI [of _ "State_Name inst"], rule exI [of _ response], rule exI,
        rule exI [of _ "state_lines (State_Name inst)"])
    apply (simp add: state_lines_def)
    done
  done

lemma printed_filters:
  assumes "\<forall>ev \<in> set mid. is_printed ev"
  shows "filter beyond_dry_run mid = []" and "filter is_describe_by_ids mid = []"
    and "filter is_reboot_call mid = []"
  using assms by (induction mid) (auto elim: is_printed.elims)

lemma reboot_except_beyond:
  "filter beyond_dry_run (snd (reboot_except instance_id e tr)) = filter beyond_dry_run tr"
  by (simp add: reboot_except_def split: pyexn.splits)

lemma reboot_except_describes:
  "filter is_describe_by_ids (snd (reboot_except instance_id e tr))
     = filter is_describe_by_ids tr"
  by (simp add: reboot_except_def split: pyexn.splits)

lemma reboot_except_reported:
  "fst (reboot_except instance_id e tr) = Inr True \<Longrightarrow>
     would_reboot_line instance_id \<in> set (snd (reboot_except instance_id e tr))"
  by (auto simp add: reboot_except_def would_reboot_line_def split: pyexn.splits if_splits)

lemma reboot_except_dry_run_operation:
  "reboot_except instance_id (ClientError ''DryRunOperation'' line) tr
     = (Inr True, tr @ [would_reboot_line instance_id])"
  by (simp add: reboot_except_def would_reboot_line_def)

lemma reboot_answered_dry:
  "reboot_answered self env instance_id True instance_state response tr
     = (Inr True, tr @ [would_reboot_line instance_id])"
  by (simp add: reboot_answered_def would_reboot_line_def)

lemma would_reboot_line_filters [simp]:
  "\<not> beyond_dry_run (would_reboot_line instance_id)"
  "\<not> is_describe_by_ids (would_reboot_line instance_id)"
  by (simp_all add: would_reboot_line_def)

lemma reboot_instance_dry_run:
  "filter beyond_dry_run (snd (reboot_instance self env instance_id True tr))
     = filter beyond_dry_run tr \<and>
   filter is_describe_by_ids (snd (reboot_instance self env instance_id True tr))
     = filter is_describe_by_ids tr @ [DescribeInstances (ByInstanceIds [instance_id])] \<and>
   (fst (reboot_instance self env instance_id True tr) = Inr True \<longrightarrow>
      would_reboot_line instance_id
        \<in> set (snd (reboot_instance self env instance_id True tr)))"
  using reboot_instance_shape [of env tr instance_id self True]
  by (elim disjE exE conjE)
    (simp_all add: reboot_except_beyond reboot_except_describes reboot_except_reported
      reboot_answered_dry printed_filters)

lemma reboot_instance_dry_run_accepted:
  assumes d: "\<forall>h. \<exists>r rs i others.
        describe_instances env h (ByInstanceIds [instance_id]) = Inr (r # rs) \<and>
        Instances r = i # others"
    and r: "\<forall>h. (\<exists>response. reboot_instances env h [instance_id] True = Inr response) \<or>
        (\<exists>line. reboot_instances env h [instance_id] True
                  = Inl (ClientError ''DryRunOperation'' line))"
  shows "fst (reboot_instance self env instance_id True tr) = Inr True"
proof -
  have no_error: "describe_instances env h (ByInstanceIds [instance_id]) \<noteq> Inl e" for h e
    using d [rule_format, of h] by auto
  have listed: "describe_instances env h (ByInstanceIds [instance_id]) = Inr reservations
      \<Longrightarrow> reservations \<noteq> [] \<and> Instances (hd reservations) \<noteq> []" for h reservations
    using d [rule_format, of h] by auto
  have answer: "reboot_instances env h [instance_id] True = Inl e
      \<Longrightarrow> \<exists>line. e = ClientError ''DryRunOperation'' line" for h e
    using r [rule_format, of h] by auto
  from reboot_instance_shape [of env tr instance_id self True] show ?thesis
    by (elim disjE exE conjE)
      (auto simp add: reboot_except_dry_run_operation reboot_answered_dry no_error
        dest: listed answer)
qed

lemma banner_filters [simp]:
  "filter beyond_dry_run banner = []" "filter is_describe_by_ids banner = []"
  by (simp_all add: banner_def)

lemma get_instance_by_name_filters:
  assumes "get_instance_by_name env name tr = (res, tr')"
  shows "filter beyond_dry_run tr' = filter beyond_dry_run tr \<and>
         filter is_describe_by_ids tr' = filter is_describe_by_ids tr"
  using get_instance_by_name_events [of env name tr] assms
  by (auto simp add: printed_filters)

lemma closing_lines_dry_run:
  assumes "arg_dry_run args"
  shows "closing_lines args tr =
           (Completed,
            tr @ [Printed (Fore_GREEN @ ''Reboot operation completed successfully.''
                           @ Style_RESET_ALL)])"
  using assms by (simp add: closing_lines_def)

lemma reboot_and_wait_dry_run:
  assumes dry: "arg_dry_run args"
  shows "filter beyond_dry_run (snd (reboot_and_wait env rebooter args instance_id tr))
           = filter beyond_dry_run tr \<and>
         filter is_describe_by_ids (snd (reboot_and_wait env rebooter args instance_id tr))
           = filter is_describe_by_ids tr @ [DescribeInstances (ByInstanceIds [instance_id])] \<and>
         (fst (reboot_and_wait env rebooter args instance_id tr) = Completed \<longleftrightarrow>
            fst (reboot_instance rebooter env instance_id True tr) = Inr True) \<and>
         (fst (reboot_and_wait env rebooter args instance_id tr) = Completed \<longrightarrow>
            would_reboot_line instance_id
              \<in> set (snd (reboot_and_wait env rebooter args instance_id tr)))"
proof -
  obtain res tr1 where r: "reboot_instance rebooter env instance_id True tr = (res, tr1)"
    by (cases "reboot_instance rebooter env instance_id True tr")
  from reboot_instance_dry_run [of rebooter env instance_id tr] r
  have f: "filter beyond_dry_run tr1 = filter beyond_dry_run tr"
    "filter is_describe_by_ids tr1
       = filter is_describe_by_ids tr @ [DescribeInstances (ByInstanceIds [instance_id])]"
    "res = Inr True \<longrightarrow> would_reboot_line instance_id \<in> set tr1"
    by simp_all
  show ?thesis
  proof (cases res)
    case (Inl e)
    with r dry have "reboot_and_wait env rebooter args instance_id tr = (Uncaught e, tr1)"
      by (simp add: reboot_and_wait_def)
    with f r Inl show ?thesis by simp
  next
    case (Inr result)
    show ?thesis
    proof (cases result)
      case False
      with r dry Inr have "reboot_and_wait env rebooter args instance_id tr = (SysExit 1, tr1)"
        by (simp add: reboot_and_wait_def)
      with f r Inr False show ?thesis by simp
    next
      case True
      with r dry Inr have "reboot_and_wait env rebooter args instance_id tr
          = (Completed,
             tr1 @ [Printed (Fore_GREEN @ ''Reboot operation completed successfully.''
                             @ Style_RESET_ALL)])"
        by (simp add: reboot_and_wait_def closing_lines_dry_run)
      with f r Inr True show ?thesis by simp
    qed
  qed
qed

lemma main_dry_run:
  assumes dry: "arg_dry_run args"
  shows "filter beyond_dry_run (snd (main env args)) = [] \<and>
         length (filter is_describe_by_ids (snd (main env args))) \<le> 1 \<and>
         (fst (main env args) = Completed \<longrightarrow>
            (\<exists>instance_id. would_reboot_line instance_id \<in> set (snd (main env args))))"
proof (cases "truthy (arg_name args)")
  case False
  then have "main env args =
      reboot_and_wait env
        (EC2Rebooter env (Some (arg_region args)) (arg_profile args) (arg_verbose args))
        args (arg_instance_id args) banner"
    by (simp add: main_def Let_def)
  with reboot_and_wait_dry_run [OF dry, of env
      "EC2Rebooter env (Some (arg_region args)) (arg_profile args) (arg_verbose args)"
      "arg_instance_id args" banner]
  show ?thesis by auto
next
  case True
  obtain res tr where g: "get_instance_by_name env (the (arg_name args)) banner = (res, tr)"
    by (cases "get_instance_by_name env (the (arg_name args)) banner")
  from get_instance_by_name_filters [OF g]
  have f: "filter beyond_dry_run tr = []" "filter is_describe_by_ids tr = []"
    by simp_all
  show ?thesis
  proof (cases res)
    case (Inl e)
    with True g have "main env args = (Uncaught e, tr)"
      by (simp add: main_def Let_def)
    with f show ?thesis by simp
  next
    case (Inr instance_id)
    show ?thesis
    proof (cases "truthy instance_id")
      case False
      with True g Inr have "main env args = (SysExit 1, tr)"
        by (simp add: main_def Let_def)
      with f show ?thesis by simp
    next
      case t: True
      with True g Inr have "main env args =
          reboot_and_wait env
            (EC2Rebooter env (Some (arg_region args)) (arg_profile args) (arg_verbose args))
            args instance_id tr"
        by (simp add: main_def Let_def)
      with f reboot_and_wait_dry_run [OF dry, of env
          "EC2Rebooter env (Some (arg_region args)) (arg_profile args) (arg_verbose args)"
          instance_id tr]
      show ?thesis by auto
    qed
  qed
qed

lemma replicate_40: "replicate 40 c = c # replicate 39 c"
proof -
  have "(40::nat) = Suc 39" by simp
  then show ?thesis by (simp only: replicate_Suc)
qed

lemmas colour_defs = Fore_RED_def Fore_GREEN_def Fore_YELLOW_def Fore_CYAN_def
  Style_RESET_ALL_def

text \<open>
  C9, as the code has it. For every invocation of the reboot driver in dry-run mode: no
  event goes beyond a dry run, that is, every call of the reboot operation carries the
  \<open>DryRun\<close> flag (the code does call \<open>reboot_instances\<close>, with \<open>DryRun=True\<close>),
  the driver does not sleep and does not wait for the status checks; it queries the
  instance by identifier at most once (the pre-check, never the post-reboot check); and
  whenever the run completes, the line that reports the simulated reboot was printed.
  The run does complete, with that line for the given identifier, when the instance is
  given by identifier and the provider always lists an instance for it and always
  answers the dry-run reboot call normally or with the error \<open>DryRunOperation\<close>.
\<close>

theorem dry_run_reboot:
  assumes "arg_dry_run args"
  shows "(\<forall>e \<in> set (snd (main env args)). \<not> beyond_dry_run e) \<and>
         length (filter is_describe_by_ids (snd (main env args))) \<le> 1 \<and>
         (fst (main env args) = Completed \<longrightarrow>
            (\<exists>instance_id. would_reboot_line instance_id \<in> set (snd (main env args)))) \<and>
         (\<not> truthy (arg_name args) \<and>
          (\<forall>h. \<exists>r rs i others.
             describe_instances env h (ByInstanceIds [arg_instance_id args]) = Inr (r # rs) \<and>
             Instances r = i # others) \<and>
          (\<forall>h. (\<exists>response.
                   reboot_instances env h [arg_instance_id args] True = Inr response) \<or>
               (\<exists>line. reboot_instances env h [arg_instance_id args] True
                          = Inl (ClientError ''DryRunOperation'' line))) \<longrightarrow>
            fst (main env args) = Completed \<and>
            would_reboot_line (arg_instance_id args) \<in> set (snd (main env args)))"
proof (intro conjI impI)
  from main_dry_run [OF assms, of env]
  have "filter beyond_dry_run (snd (main env args)) = []" by simp
  then show "\<forall>e \<in> set (snd (main env args)). \<not> beyond_dry_run e"
    by (simp add: filter_empty_conv)
next
  from main_dry_run [OF assms, of env]
  show "length (filter is_describe_by_ids (snd (main env args))) \<le> 1" by simp
next
  assume "fst (main env args) = Completed"
  with main_dry_run [OF assms, of env]
  show "\<exists>instance_id. would_reboot_line instance_id \<in> set (snd (main env args))" by simp
next
  let ?rb = "EC2Rebooter env (Some (arg_region args)) (arg_profile args) (arg_verbose args)"
  assume h: "\<not> truthy (arg_name args) \<and>
          (\<forall>h. \<exists>r rs i others.
             describe_instances env h (ByInstanceIds [arg_instance_id args]) = Inr (r # rs) \<and>
             Instances r = i # others) \<and>
          (\<forall>h. (\<exists>response.
                   reboot_instances env h [arg_instance_id args] True = Inr response) \<or>
               (\<exists>line. reboot_instances env h [arg_instance_id args] True
                          = Inl (ClientError ''DryRunOperation'' line)))"
  then have m: "main env args = reboot_and_wait env ?rb args (arg_instance_id args) banner"
    by (simp add: main_def Let_def)
  from h have "fst (reboot_instance ?rb env (arg_instance_id args) True banner) = Inr True"
    by (intro reboot_instance_dry_run_accepted) blast+
  with reboot_and_wait_dry_run [OF assms, of env ?rb "arg_instance_id args" banner] m
  show "fst (main env args) = Completed"
    and "would_reboot_line (arg_instance_id args) \<in> set (snd (main env args))"
    by simp_all
qed

theorem dry_run_reboot_witness:
  "fst (main (fixed_ec2 [\<lparr>Instances = [running_instance ''i-0a1'']\<rparr>] dry_run_answer)
          (args_by_id ''i-0a1'' True)) = Completed \<and>
   would_reboot_line (Some ''i-0a1'')
     \<in> set (snd (main (fixed_ec2 [\<lparr>Instances = [running_instance ''i-0a1'']\<rparr>] dry_run_answer)
                   (args_by_id ''i-0a1'' True))) \<and>
   filter beyond_dry_run
     (snd (main (fixed_ec2 [\<lparr>Instances = [running_instance ''i-0a1'']\<rparr>] dry_run_answer)
             (args_by_id ''i-0a1'' True))) = []"
proof -
  let ?env = "fixed_ec2 [\<lparr>Instances = [running_instance ''i-0a1'']\<rparr>] dry_run_answer"
  let ?args = "args_by_id ''i-0a1'' True"
  have dry: "arg_dry_run ?args" by (simp add: args_by_id_def)
  have h: "\<not> truthy (arg_name ?args) \<and>
          (\<forall>h. \<exists>r rs i others.
             describe_instances ?env h (ByInstanceIds [arg_instance_id ?args]) = Inr (r # rs) \<and>
             Instances r = i # others) \<and>
          (\<forall>h. (\<exists>response.
                   reboot_instances ?env h [arg_instance_id ?args] True = Inr response) \<or>
               (\<exists>line. reboot_instances ?env h [arg_instance_id ?args] True
                          = Inl (ClientError ''DryRunOperation'' line)))"
    by (simp add: args_by_id_def fixed_ec2_def dry_run_answer_def truthy_def)
  note w = dry_run_reboot [OF dry, of ?env]
  from w [THEN conjunct2, THEN conjunct2, THEN conjunct2, THEN mp, OF h]
  have a: "fst (main ?env ?args) = Completed \<and>
           would_reboot_line (arg_instance_id ?args) \<in> set (snd (main ?env ?args))" .
  have i: "arg_instance_id ?args = Some ''i-0a1''" by (simp add: args_by_id_def)
  from w [THEN conjunct1] have "filter beyond_dry_run (snd (main ?env ?args)) = []"
    by (simp add: filter_empty_conv)
  with a i show ?thesis by simp
qed

text \<open>
  The claim as written promises the simulated success for every dry run. When the
  pre-check lists no instance, the dry run prints that the instance was not found and
  ends with \<open>sys.exit(1)\<close>, without the line of the simulated reboot. And when the
  instance is listed, the dry run does call the reboot operation, with \<open>DryRun=True\<close>.
\<close>

theorem dry_run_not_found_counterexample:
  "arg_dry_run (args_by_id ''i-0a1'' True) \<and>
   fst (main (fixed_ec2 [] dry_run_answer) (args_by_id ''i-0a1'' True)) = SysExit 1 \<and>
   last (snd (main (fixed_ec2 [] dry_run_answer) (args_by_id ''i-0a1'' True)))
     = Printed (Fore_RED @ ''Error: Instance i-0a1 not found'' @ Style_RESET_ALL) \<and>
   would_reboot_line (Some ''i-0a1'')
     \<notin> set (snd (main (fixed_ec2 [] dry_run_answer) (args_by_id ''i-0a1'' True))) \<and>
   RebootInstances [Some ''i-0a1''] True
     \<in> set (snd (main (fixed_ec2 [\<lparr>Instances = [running_instance ''i-0a1'']\<rparr>] dry_run_answer)
                   (args_by_id ''i-0a1'' True)))"
  by (simp add: ec2_eval_defs colour_defs replicate_40)

end
